theory Spec2Isabelle
  imports
    Complex_Main
    "HOL-Library.Monad_Syntax"
    "HOL-Library.Char_ord"
    "HOL-Library.List_Lexorder"
begin

section \<open>Python values held in spreadsheet cells\<close>

text \<open>
  The notebook \<open>ethnicitypredictions.ipynb\<close> reads two spreadsheets with pandas. A cell of
  a spreadsheet column is a Python string, an integer, a boolean or a missing value (NaN).
  Strings are lists of \<open>char\<close>; a \<open>char\<close> stands for one code point below 256.
  A raised exception is the value \<open>None\<close> of an \<open>option\<close> result.
\<close>

datatype cell = CStr string | CInt int | CBool bool | CNaN

text \<open>Python's \<open>==\<close> on two cell values: \<open>False == 0\<close> and \<open>True == 1\<close> hold, NaN equals nothing.\<close>

fun py_eq :: "cell \<Rightarrow> cell \<Rightarrow> bool" where
  "py_eq (CStr a) (CStr b) = (a = b)"
| "py_eq (CInt a) (CInt b) = (a = b)"
| "py_eq (CInt a) (CBool b) = (a = (if b then 1 else 0))"
| "py_eq (CBool a) (CInt b) = ((if a then 1 else 0) = b)"
| "py_eq (CBool a) (CBool b) = (a = b)"
| "py_eq _ _ = False"

fun digits :: "nat \<Rightarrow> string" where
  "digits n = (if n < 10 then [''0123456789'' ! n]
               else digits (n div 10) @ [''0123456789'' ! (n mod 10)])"

text \<open>Python's \<open>str(v)\<close>, which \<open>astype(str)\<close> applies to every element of a column.\<close>

fun py_str :: "cell \<Rightarrow> string" where
  "py_str (CStr s) = s"
| "py_str (CInt i) = (if i < 0 then CHR ''-'' # digits (nat (- i)) else digits (nat i))"
| "py_str (CBool b) = (if b then ''True'' else ''False'')"
| "py_str CNaN = ''nan''"

definition astype_str :: "cell list \<Rightarrow> cell list" where
  "astype_str col = map (\<lambda>v. CStr (py_str v)) col"

text \<open>A function that needs a \<open>str\<close> raises TypeError on any other value.\<close>

fun str_of :: "cell \<Rightarrow> string option" where
  "str_of (CStr s) = Some s"
| "str_of _ = None"

section \<open>Text preprocessing\<close>

text \<open>
  \<open>str.isalpha\<close> and \<open>str.lower\<close> on code points below 256: the ASCII letters and the
  letters of the Latin-1 block (the multiplication and division signs are not letters).
\<close>

definition is_alpha_char :: "char \<Rightarrow> bool" where
  "is_alpha_char c =
     (let n = (of_char c :: nat)
      in (65 \<le> n \<and> n \<le> 90) \<or> (97 \<le> n \<and> n \<le> 122) \<or> n = 170 \<or> n = 181 \<or> n = 186
         \<or> (192 \<le> n \<and> n \<le> 214) \<or> (216 \<le> n \<and> n \<le> 246) \<or> (248 \<le> n \<and> n \<le> 255))"

definition isalpha :: "string \<Rightarrow> bool" where
  "isalpha s = (s \<noteq> [] \<and> list_all is_alpha_char s)"

definition lower_char :: "char \<Rightarrow> char" where
  "lower_char c =
     (let n = (of_char c :: nat)
      in if (65 \<le> n \<and> n \<le> 90) \<or> (192 \<le> n \<and> n \<le> 214) \<or> (216 \<le> n \<and> n \<le> 222)
         then char_of (n + 32) else c)"

definition lower :: "string \<Rightarrow> string" where
  "lower s = map lower_char s"

text \<open>
  The functions the notebook imports from NLTK and scikit-learn are parameters of the
  model: the tokenizer \<open>word_tokenize\<close>, the Porter stemmer's \<open>stem\<close>, the English stopword
  list, the shuffle drawn from a random state, the three estimators (\<open>fit\<close> and
  \<open>predict\<close> of MultinomialNB, RandomForestClassifier and SVC) and the text of
  \<open>classification_report\<close>. A function that takes \<open>random_state\<close> gets the state of the
  global generator (a \<open>nat\<close>) and the seed (\<open>None\<close> when no seed is passed).
\<close>

record ('nb, 'rf, 'svm) library =
  word_tokenize :: "string \<Rightarrow> string list"
  stem :: "string \<Rightarrow> string"
  stop_words :: "string set"
  permutation :: "nat \<Rightarrow> nat option \<Rightarrow> nat \<Rightarrow> nat list"
  nb_fit :: "nat list list \<Rightarrow> cell list \<Rightarrow> 'nb"
  nb_predict :: "'nb \<Rightarrow> nat list list \<Rightarrow> cell list"
  rf_fit :: "nat \<Rightarrow> nat option \<Rightarrow> nat list list \<Rightarrow> cell list \<Rightarrow> 'rf"
  rf_predict :: "'rf \<Rightarrow> nat list list \<Rightarrow> cell list"
  svm_fit :: "nat \<Rightarrow> nat option \<Rightarrow> nat list list \<Rightarrow> cell list \<Rightarrow> 'svm"
  svm_predict :: "'svm \<Rightarrow> nat list list \<Rightarrow> cell list"
  classification_report :: "cell list \<Rightarrow> cell list \<Rightarrow> string"

text \<open>\<open>sep.join(words)\<close>.\<close>

fun join :: "string \<Rightarrow> string list \<Rightarrow> string" where
  "join sep [] = []"
| "join sep [w] = w"
| "join sep (w # v # ws) = w @ sep @ join sep (v # ws)"

text \<open>
  The list comprehension of \<open>preprocess_text\<close>, run as Python runs it: the tokens are
  visited from left to right and the stem of each token that passes the test is appended
  to the result list.
\<close>

fun stem_kept :: "('nb, 'rf, 'svm) library \<Rightarrow> string list \<Rightarrow> string list \<Rightarrow> string list" where
  "stem_kept L acc [] = acc"
| "stem_kept L acc (word # rest) =
     (if isalpha word \<and> lower word \<notin> stop_words L
      then stem_kept L (acc @ [stem L word]) rest
      else stem_kept L acc rest)"

definition preprocess_text :: "('nb, 'rf, 'svm) library \<Rightarrow> string \<Rightarrow> string" where
  "preprocess_text L text =
     (let words = word_tokenize L text;
          words = stem_kept L [] words
      in join '' '' words)"

text \<open>
  The normalization as the specification words it: keep the tokens that are purely
  alphabetic and whose lowercase form is not a stopword, in their order, stem each of
  them, and write the stems one after the other with a space between neighbours.
\<close>

definition spec_kept_tokens :: "('nb, 'rf, 'svm) library \<Rightarrow> string \<Rightarrow> string list" where
  "spec_kept_tokens L text =
     filter (\<lambda>w. isalpha w \<and> lower w \<notin> stop_words L) (word_tokenize L text)"

definition spec_space_separated :: "string list \<Rightarrow> string" where
  "spec_space_separated ws =
     (case ws of [] \<Rightarrow> [] | w # rest \<Rightarrow> w @ concat (map (\<lambda>v. '' '' @ v) rest))"

definition spec_normalize :: "('nb, 'rf, 'svm) library \<Rightarrow> string \<Rightarrow> string" where
  "spec_normalize L text = spec_space_separated (map (stem L) (spec_kept_tokens L text))"

section \<open>Data frames\<close>

text \<open>
  A pandas DataFrame is its columns in order, each a name with the values of the rows.
\<close>

type_synonym frame = "(string \<times> cell list) list"

text \<open>\<open>df[name]\<close>; KeyError when there is no such column.\<close>

definition get_col :: "frame \<Rightarrow> string \<Rightarrow> cell list option" where
  "get_col df name = map_of df name"

definition nrows :: "frame \<Rightarrow> nat" where
  "nrows df = (case df of [] \<Rightarrow> 0 | (c, vs) # rest \<Rightarrow> length vs)"

fun put_col :: "string \<Rightarrow> cell list \<Rightarrow> frame \<Rightarrow> frame" where
  "put_col name vals [] = [(name, vals)]"
| "put_col name vals ((c, vs) # rest) =
     (if c = name then (c, vals) # rest else (c, vs) # put_col name vals rest)"

text \<open>
  \<open>df[name] = vals\<close>: an existing column is replaced where it stands, a new one is added
  at the end; ValueError when the number of values is not the number of rows.
\<close>

definition set_col :: "string \<Rightarrow> cell list \<Rightarrow> frame \<Rightarrow> frame option" where
  "set_col name vals df =
     (if df \<noteq> [] \<and> length vals \<noteq> nrows df then None else Some (put_col name vals df))"

text \<open>\<open>xs[mask]\<close> on one column and \<open>df[mask]\<close> on every column: the rows whose mask is True.\<close>

definition rows_kept :: "bool list \<Rightarrow> 'a list \<Rightarrow> 'a list" where
  "rows_kept keep vs = map fst (filter snd (zip vs keep))"

definition select_rows :: "bool list \<Rightarrow> frame \<Rightarrow> frame" where
  "select_rows keep df = map (\<lambda>(c, vs). (c, rows_kept keep vs)) df"

text \<open>
  The cleaning cell:
  \<^verbatim>\<open>data['ShippingName'] = data['ShippingName'].astype(str)\<close>,
  \<^verbatim>\<open>data = data[data['Ethnicity'] != False]\<close>.
\<close>

definition not_false_mask :: "cell list \<Rightarrow> bool list" where
  "not_false_mask ethnicity = map (\<lambda>v. \<not> py_eq v (CBool False)) ethnicity"

definition clean :: "frame \<Rightarrow> frame option" where
  "clean data0 = do {
     names \<leftarrow> get_col data0 ''ShippingName'';
     data1 \<leftarrow> set_col ''ShippingName'' (astype_str names) data0;
     ethnicity \<leftarrow> get_col data1 ''Ethnicity'';
     Some (select_rows (not_false_mask ethnicity) data1)
   }"

text \<open>\<open>df[name].apply(preprocess_text)\<close>: the function is called on every value of the column.\<close>

definition apply_preprocess :: "('nb, 'rf, 'svm) library \<Rightarrow> cell list \<Rightarrow> cell list option" where
  "apply_preprocess L col = do {
     names \<leftarrow> those (map str_of col);
     Some (map (\<lambda>s. CStr (preprocess_text L s)) names)
   }"

section \<open>Train/test split\<close>

text \<open>
  The notebook holds data out with
  \<^verbatim>\<open>train_test_split(data['processed_name'], data['Ethnicity'], test_size=0.2, random_state=42)\<close>.
  The function belongs to scikit-learn and its code is not part of the repository.
\<close>

text \<open>
  Modelled from the spec: the size of the held-out part, which scikit-learn's
  \<open>train_test_split\<close> (not under src/) computes; with \<open>test_size=0.2\<close> and \<open>n\<close> rows it
  is \<open>ceil(0.2 * n)\<close>.
\<close>

definition n_test_of :: "nat \<Rightarrow> nat" where
  "n_test_of n = (n + 4) div 5"

text \<open>
  Modelled from the spec: the row positions of the training part and of the held-out
  part, which scikit-learn's \<open>train_test_split\<close> (not under src/) draws; a shuffle of the
  positions comes from the random state, its first positions are the held-out rows and
  the following ones the training rows.
\<close>

definition split_indices ::
  "('nb, 'rf, 'svm) library \<Rightarrow> nat \<Rightarrow> nat option \<Rightarrow> nat \<Rightarrow> nat list \<times> nat list" where
  "split_indices L g random_state n =
     (let n_test = n_test_of n;
          n_train = n - n_test;
          perm = permutation L g random_state n
      in (take n_train (drop n_test perm), take n_test perm))"

text \<open>Positional indexing of an array by a list of positions; IndexError out of range.\<close>

definition take_rows :: "'a list \<Rightarrow> nat list \<Rightarrow> 'a list option" where
  "take_rows xs idx = those (map (\<lambda>i. if i < length xs then Some (xs ! i) else None) idx)"

text \<open>
  Modelled from the spec: the held-out split itself, scikit-learn's \<open>train_test_split\<close>
  (not under src/); it returns the training and the held-out rows of both arrays and
  raises ValueError when the arrays differ in length or the training part would be empty.
\<close>

definition train_test_split ::
  "('nb, 'rf, 'svm) library \<Rightarrow> nat \<Rightarrow> nat option \<Rightarrow> 'a list \<Rightarrow> 'b list
     \<Rightarrow> ('a list \<times> 'a list \<times> 'b list \<times> 'b list) option" where
  "train_test_split L g random_state X y =
     (let n = length X in
      if length y \<noteq> n \<or> n - n_test_of n = 0 then None
      else do {
        X_train \<leftarrow> take_rows X (fst (split_indices L g random_state n));
        X_test \<leftarrow> take_rows X (snd (split_indices L g random_state n));
        y_train \<leftarrow> take_rows y (fst (split_indices L g random_state n));
        y_test \<leftarrow> take_rows y (snd (split_indices L g random_state n));
        Some (X_train, X_test, y_train, y_test)
      })"

section \<open>Bag-of-words vectorization\<close>

text \<open>
  The notebook vectorizes with \<^verbatim>\<open>vectorizer = CountVectorizer()\<close>,
  \<^verbatim>\<open>vectorizer.fit_transform(X_train)\<close> and \<^verbatim>\<open>vectorizer.transform(...)\<close>. The class
  belongs to scikit-learn and its code is not part of the repository.
\<close>

text \<open>
  Modelled from the spec: the word characters of the bag-of-words tokenizer
  (scikit-learn's \<open>CountVectorizer\<close>, not under src/): letters, digits and the underscore.
\<close>

definition is_word_char :: "char \<Rightarrow> bool" where
  "is_word_char c =
     (let n = (of_char c :: nat)
      in is_alpha_char c \<or> (48 \<le> n \<and> n \<le> 57) \<or> n = 95
         \<or> n = 178 \<or> n = 179 \<or> n = 185 \<or> n = 188 \<or> n = 189 \<or> n = 190)"

text \<open>
  Modelled from the spec: the maximal runs of word characters of a text, the candidates
  for tokens of the bag-of-words tokenizer (scikit-learn's \<open>CountVectorizer\<close>, not under
  src/).
\<close>

fun word_runs :: "string \<Rightarrow> string \<Rightarrow> string list" where
  "word_runs cur [] = (if cur = [] then [] else [cur])"
| "word_runs cur (c # cs) =
     (if is_word_char c then word_runs (cur @ [c]) cs
      else if cur = [] then word_runs [] cs
      else cur # word_runs [] cs)"

text \<open>
  Modelled from the spec: the tokens that bag-of-words vectorization counts
  (scikit-learn's \<open>CountVectorizer\<close>, not under src/); with the default settings the
  text is lowercased and the tokens are its runs of two or more word characters.
\<close>

definition analyze :: "string \<Rightarrow> string list" where
  "analyze doc = filter (\<lambda>t. 2 \<le> length t) (word_runs [] (lower doc))"

text \<open>
  Modelled from the spec: fitting the bag-of-words vectorizer (scikit-learn's
  \<open>CountVectorizer\<close>, not under src/); the vocabulary is the sorted list of the distinct
  tokens of the documents, and an empty vocabulary raises ValueError.
\<close>

definition fit_vocabulary :: "string list \<Rightarrow> string list option" where
  "fit_vocabulary docs =
     (let vocabulary = sort (remdups (concat (map analyze docs)))
      in if vocabulary = [] then None else Some vocabulary)"

text \<open>
  Modelled from the spec: the fixed-length numeric vector counting token occurrences
  (scikit-learn's \<open>CountVectorizer\<close>, not under src/); one entry for each token of the
  vocabulary, the number of times it occurs among the tokens of the document.
\<close>

definition transform_doc :: "string list \<Rightarrow> string \<Rightarrow> nat list" where
  "transform_doc vocabulary doc = map (\<lambda>t. count_list (analyze doc) t) vocabulary"

text \<open>
  Modelled from the spec: the vectors of a list of documents (\<open>vectorizer.transform\<close> of
  scikit-learn's \<open>CountVectorizer\<close>, not under src/).
\<close>

definition transform :: "string list \<Rightarrow> string list \<Rightarrow> nat list list" where
  "transform vocabulary docs = map (transform_doc vocabulary) docs"

section \<open>Evaluation metrics\<close>

text \<open>
  \<open>accuracy_score\<close>: the fraction of positions where prediction and truth are equal
  (ValueError when the arrays differ in length). \<open>Series.unique()\<close>: the distinct values
  in order of first appearance. \<open>confusion_matrix(y_true, y_pred, labels=...)\<close>: for each
  actual and each predicted label of \<open>labels\<close>, the number of rows with that pair.
\<close>

definition accuracy_score :: "cell list \<Rightarrow> cell list \<Rightarrow> rat option" where
  "accuracy_score y_true y_pred =
     (if length y_true \<noteq> length y_pred then None
      else Some (of_nat (length (filter (\<lambda>(t, p). py_eq t p) (zip y_true y_pred)))
                 / of_nat (length y_true)))"

fun unique :: "'a list \<Rightarrow> 'a list" where
  "unique [] = []"
| "unique (x # xs) = x # unique (filter (\<lambda>v. v \<noteq> x) xs)"

definition confusion_matrix :: "cell list \<Rightarrow> cell list \<Rightarrow> cell list \<Rightarrow> nat list list option" where
  "confusion_matrix y_true y_pred labels =
     (if length y_true \<noteq> length y_pred then None
      else Some (map (\<lambda>actual. map (\<lambda>predicted.
             length (filter (\<lambda>(t, p). py_eq t actual \<and> py_eq p predicted) (zip y_true y_pred)))
             labels) labels))"

section \<open>The notebook, cell by cell\<close>

text \<open>
  The variables the kernel holds after the training and evaluation cells. The cells that
  only print or plot (baseline accuracy, feature importances, result tables, ROC curves)
  assign nothing that a later cell reads and are left out.
\<close>

record ('nb, 'rf, 'svm) evaluation =
  data :: frame
  X_train :: "string list"
  X_test :: "string list"
  y_train :: "cell list"
  y_test :: "cell list"
  vectorizer :: "string list"
  X_train_vectorized :: "nat list list"
  X_test_vectorized :: "nat list list"
  classifier :: 'nb
  predictions :: "cell list"
  accuracy :: rat
  report_nb :: string
  cm_nb :: "nat list list"
  rf_classifier :: 'rf
  rf_predictions :: "cell list"
  rf_accuracy :: rat
  report_rf :: string
  cm_rf :: "nat list list"
  svm_classifier :: 'svm
  svm_predictions :: "cell list"
  svm_accuracy :: rat
  report_svm :: string
  cm_svm :: "nat list list"

text \<open>
  The cells from preprocessing to the confusion matrices. Each estimator is fitted once on
  the vectorized training part; its predictions on the vectorized test part are kept in a
  variable and every metric reads that variable and \<open>y_test\<close>.
\<close>

definition evaluate ::
  "('nb, 'rf, 'svm) library \<Rightarrow> frame \<Rightarrow> string list \<Rightarrow> string list \<Rightarrow> cell list \<Rightarrow> cell list
     \<Rightarrow> string list \<Rightarrow> 'nb \<Rightarrow> 'rf \<Rightarrow> 'svm \<Rightarrow> ('nb, 'rf, 'svm) evaluation option" where
  "evaluate L table Xtr Xte ytr yte vocabulary nb rf svm = do {
     nb_acc \<leftarrow> accuracy_score yte (nb_predict L nb (transform vocabulary Xte));
     rf_acc \<leftarrow> accuracy_score yte (rf_predict L rf (transform vocabulary Xte));
     svm_acc \<leftarrow> accuracy_score yte (svm_predict L svm (transform vocabulary Xte));
     labels \<leftarrow> get_col table ''Ethnicity'';
     nb_cm \<leftarrow> confusion_matrix yte (nb_predict L nb (transform vocabulary Xte)) (unique labels);
     rf_cm \<leftarrow> confusion_matrix yte (rf_predict L rf (transform vocabulary Xte)) (unique labels);
     svm_cm \<leftarrow> confusion_matrix yte (svm_predict L svm (transform vocabulary Xte)) (unique labels);
     Some \<lparr> data = table,
            X_train = Xtr, X_test = Xte, y_train = ytr, y_test = yte,
            vectorizer = vocabulary,
            X_train_vectorized = transform vocabulary Xtr,
            X_test_vectorized = transform vocabulary Xte,
            classifier = nb,
            predictions = nb_predict L nb (transform vocabulary Xte),
            accuracy = nb_acc,
            report_nb = classification_report L yte (nb_predict L nb (transform vocabulary Xte)),
            cm_nb = nb_cm,
            rf_classifier = rf,
            rf_predictions = rf_predict L rf (transform vocabulary Xte),
            rf_accuracy = rf_acc,
            report_rf = classification_report L yte (rf_predict L rf (transform vocabulary Xte)),
            cm_rf = rf_cm,
            svm_classifier = svm,
            svm_predictions = svm_predict L svm (transform vocabulary Xte),
            svm_accuracy = svm_acc,
            report_svm = classification_report L yte (svm_predict L svm (transform vocabulary Xte)),
            cm_svm = svm_cm \<rparr>
   }"

text \<open>
  \<open>SVC.fit\<close> checks its labels before it trains: the distinct labels are the classes, and
  fewer than two classes raise ValueError. The other two estimators accept one class.
\<close>

definition validate_targets :: "cell list \<Rightarrow> cell list option" where
  "validate_targets y = (if length (remdups y) < 2 then None else Some (remdups y))"

definition train_and_evaluate ::
  "('nb, 'rf, 'svm) library \<Rightarrow> nat \<Rightarrow> frame \<Rightarrow> ('nb, 'rf, 'svm) evaluation option" where
  "train_and_evaluate L g raw = do {
     cleaned \<leftarrow> clean raw;
     names \<leftarrow> get_col cleaned ''ShippingName'';
     processed \<leftarrow> apply_preprocess L names;
     table \<leftarrow> set_col ''processed_name'' processed cleaned;
     X_col \<leftarrow> get_col table ''processed_name'';
     X \<leftarrow> those (map str_of X_col);
     y \<leftarrow> get_col table ''Ethnicity'';
     (Xtr, Xte, ytr, yte) \<leftarrow> train_test_split L g (Some 42) X y;
     vocabulary \<leftarrow> fit_vocabulary Xtr;
     classes \<leftarrow> validate_targets ytr;
     evaluate L table Xtr Xte ytr yte vocabulary
       (nb_fit L (transform vocabulary Xtr) ytr)
       (rf_fit L g (Some 42) (transform vocabulary Xtr) ytr)
       (svm_fit L g (Some 42) (transform vocabulary Xtr) ytr)
   }"

text \<open>
  The kernel after the cell that reads the new data and predicts on it: the variables of
  the evaluation, the new table, its vectors and the three prediction arrays.
\<close>

record ('nb, 'rf, 'svm) session =
  trained :: "('nb, 'rf, 'svm) evaluation"
  new_data :: frame
  new_data_vectorized :: "nat list list"
  new_predictions_nb :: "cell list"
  new_predictions_rf :: "cell list"
  new_predictions_svm :: "cell list"

definition predict_new ::
  "('nb, 'rf, 'svm) library \<Rightarrow> ('nb, 'rf, 'svm) evaluation \<Rightarrow> frame
     \<Rightarrow> ('nb, 'rf, 'svm) session option" where
  "predict_new L ev new0 = do {
     names \<leftarrow> get_col new0 ''shipping_firstname'';
     new1 \<leftarrow> set_col ''shipping_firstname'' (astype_str names) new0;
     names1 \<leftarrow> get_col new1 ''shipping_firstname'';
     processed \<leftarrow> apply_preprocess L names1;
     new2 \<leftarrow> set_col ''processed_name'' processed new1;
     docs_col \<leftarrow> get_col new2 ''processed_name'';
     docs \<leftarrow> those (map str_of docs_col);
     Some \<lparr> trained = ev,
            new_data = new2,
            new_data_vectorized = transform (vectorizer ev) docs,
            new_predictions_nb = nb_predict L (classifier ev) (transform (vectorizer ev) docs),
            new_predictions_rf = rf_predict L (rf_classifier ev) (transform (vectorizer ev) docs),
            new_predictions_svm = svm_predict L (svm_classifier ev) (transform (vectorizer ev) docs) \<rparr>
   }"

text \<open>
  The item type of a NumPy array of labels. The array \<open>MultinomialNB.predict\<close> returns
  takes its labels from \<open>classes_\<close>, which that estimator builds with
  \<open>np.asarray(sorted(labels))\<close>: an array of strings of one fixed width, the length of the
  longest training label (and at least one). A longer string stored in such an array is
  cut to that width. \<open>RandomForestClassifier\<close> and \<open>SVC\<close> keep the labels as
  \<open>np.unique\<close> of the label column returns them, an array of Python objects that stores
  any string whole.
\<close>

datatype dtype = FixedWidth nat | Object

fun store :: "dtype \<Rightarrow> string \<Rightarrow> cell" where
  "store (FixedWidth w) s = CStr (take w s)"
| "store Object s = CStr s"

text \<open>
  \<open>arr[flags] = s\<close> on a NumPy array of labels: the entries whose flag is True become the
  string as the array stores it; IndexError when the flags are not as many as the entries.
\<close>

definition mask_assign :: "dtype \<Rightarrow> cell list \<Rightarrow> bool list \<Rightarrow> string \<Rightarrow> cell list option" where
  "mask_assign dt arr flags s =
     (if length flags \<noteq> length arr then None
      else Some (map (\<lambda>(a, f). if f then store dt s else a) (zip arr flags)))"

text \<open>
  The item type of the array of Naive Bayes predictions, from the labels the estimator
  was fitted on. Labels that are not all strings leave no array a string can be stored
  in: scikit-learn refuses labels of mixed types, and an array of numbers raises
  ValueError when \<open>Others\<close> is assigned to it.
\<close>

fun is_str :: "cell \<Rightarrow> bool" where
  "is_str (CStr s) = True"
| "is_str _ = False"

definition item_width :: "cell list \<Rightarrow> nat" where
  "item_width labels = foldr (\<lambda>v w. max (length (py_str v)) w) labels 1"

definition nb_dtype :: "cell list \<Rightarrow> dtype option" where
  "nb_dtype labels =
     (if list_all is_str labels then Some (FixedWidth (item_width labels)) else None)"

definition eq_mask :: "cell list \<Rightarrow> string \<Rightarrow> bool list" where
  "eq_mask col s = map (\<lambda>v. py_eq v (CStr s)) col"

definition exceptional_cases :: "string list" where
  "exceptional_cases = [''nan'', '''']"

text \<open>The loop \<open>for case in exceptional_cases\<close> over the three arrays of new predictions.\<close>

fun substitute_cases ::
  "string list \<Rightarrow> ('nb, 'rf, 'svm) session \<Rightarrow> ('nb, 'rf, 'svm) session option" where
  "substitute_cases [] s = Some s"
| "substitute_cases (c # rest) s = do {
     processed \<leftarrow> get_col (new_data s) ''processed_name'';
     nb_items \<leftarrow> nb_dtype (y_train (trained s));
     nb \<leftarrow> mask_assign nb_items (new_predictions_nb s) (eq_mask processed c) ''Others'';
     rf \<leftarrow> mask_assign Object (new_predictions_rf s) (eq_mask processed c) ''Others'';
     svm \<leftarrow> mask_assign Object (new_predictions_svm s) (eq_mask processed c) ''Others'';
     substitute_cases rest
       (s\<lparr>new_predictions_nb := nb, new_predictions_rf := rf, new_predictions_svm := svm\<rparr>)
   }"

text \<open>The cell that adds the three arrays to the new table as columns.\<close>

definition add_predictions :: "('nb, 'rf, 'svm) session \<Rightarrow> ('nb, 'rf, 'svm) session option" where
  "add_predictions s = do {
     d1 \<leftarrow> set_col ''Predicted_Ethnicity_NB'' (new_predictions_nb s) (new_data s);
     d2 \<leftarrow> set_col ''Predicted_Ethnicity_RF'' (new_predictions_rf s) d1;
     d3 \<leftarrow> set_col ''Predicted_Ethnicity_SVM'' (new_predictions_svm s) d2;
     Some (s\<lparr>new_data := d3\<rparr>)
   }"

text \<open>
  \<open>datetime.now().strftime("%d%m%Y_%H%M%S%p")\<close>, for years of four digits: day, month,
  year, an underscore, the hour on the 24-hour clock, minute, second, and AM or PM.
\<close>

record datetime =
  year :: nat
  month :: nat
  day :: nat
  hour :: nat
  minute :: nat
  second :: nat

definition pad2 :: "nat \<Rightarrow> string" where
  "pad2 n = (if n < 10 then CHR ''0'' # digits n else digits n)"

definition strftime :: "datetime \<Rightarrow> string" where
  "strftime d =
     pad2 (day d) @ pad2 (month d) @ digits (year d) @ ''_''
     @ pad2 (hour d) @ pad2 (minute d) @ pad2 (second d)
     @ (if hour d < 12 then ''AM'' else ''PM'')"

text \<open>
  The whole run: its final kernel, the timestamp string, and the files it wrote, each a
  path with the table written to it (\<open>to_excel(path, index=False)\<close>).
\<close>

record ('nb, 'rf, 'svm) outcome =
  final :: "('nb, 'rf, 'svm) session"
  current_datetime :: string
  written :: "(string \<times> frame) list"

definition export :: "datetime \<Rightarrow> ('nb, 'rf, 'svm) session \<Rightarrow> ('nb, 'rf, 'svm) outcome" where
  "export now s =
     \<lparr> final = s,
       current_datetime = strftime now,
       written = [(''Data/Predictions/ecomm_demo_2023Q3_predicted_ethnicities_''
                    @ strftime now @ ''.xlsx'', new_data s)] \<rparr>"

definition run ::
  "('nb, 'rf, 'svm) library \<Rightarrow> nat \<Rightarrow> datetime \<Rightarrow> frame \<Rightarrow> frame
     \<Rightarrow> ('nb, 'rf, 'svm) outcome option" where
  "run L g now raw new0 = do {
     ev \<leftarrow> train_and_evaluate L g raw;
     s0 \<leftarrow> predict_new L ev new0;
     s1 \<leftarrow> substitute_cases exceptional_cases s0;
     s2 \<leftarrow> add_predictions s1;
     Some (export now s2)
   }"

section \<open>Stand-ins for the library in worked examples\<close>

text \<open>
  To evaluate the notebook on concrete tables, the library parameters are instantiated
  with small executable stand-ins: a tokenizer that splits at spaces, a stemmer that
  lowercases, one stopword, a shuffle that reverses the row order (rotated by the global
  generator's state when no seed is given), and three toy estimators.
\<close>

fun split_spaces :: "string \<Rightarrow> string \<Rightarrow> string list" where
  "split_spaces cur [] = (if cur = [] then [] else [cur])"
| "split_spaces cur (c # cs) =
     (if c = CHR '' '' then (if cur = [] then split_spaces [] cs else cur # split_spaces [] cs)
      else split_spaces (cur @ [c]) cs)"

definition demo_nb_fit :: "nat list list \<Rightarrow> cell list \<Rightarrow> cell option" where
  "demo_nb_fit X y = (case y of [] \<Rightarrow> None | v # rest \<Rightarrow> Some v)"

definition demo_svm_fit :: "nat \<Rightarrow> nat option \<Rightarrow> nat list list \<Rightarrow> cell list \<Rightarrow> cell option" where
  "demo_svm_fit g seed X y = (case rev y of [] \<Rightarrow> None | v # rest \<Rightarrow> Some v)"

definition demo_const_predict :: "cell option \<Rightarrow> nat list list \<Rightarrow> cell list" where
  "demo_const_predict m X = (case m of None \<Rightarrow> [] | Some v \<Rightarrow> map (\<lambda>x. v) X)"

definition demo_rf_fit ::
  "nat \<Rightarrow> nat option \<Rightarrow> nat list list \<Rightarrow> cell list \<Rightarrow> (nat list \<times> cell) list" where
  "demo_rf_fit g seed X y = (case seed of None \<Rightarrow> rotate g (zip X y) | Some k \<Rightarrow> zip X y)"

definition shares_token :: "nat list \<Rightarrow> nat list \<Rightarrow> bool" where
  "shares_token x x' = (0 < sum_list (map (\<lambda>(a, b). a * b) (zip x x')))"

definition demo_rf_predict :: "(nat list \<times> cell) list \<Rightarrow> nat list list \<Rightarrow> cell list" where
  "demo_rf_predict m X =
     (case m of [] \<Rightarrow> []
      | (x0, v0) # rest \<Rightarrow>
          map (\<lambda>x. case filter (\<lambda>(x', v). shares_token x x') m of
                      [] \<Rightarrow> v0 | (x', v) # matches \<Rightarrow> v) X)"

definition demo_permutation :: "nat \<Rightarrow> nat option \<Rightarrow> nat \<Rightarrow> nat list" where
  "demo_permutation g seed n =
     (case seed of None \<Rightarrow> rotate g (rev [0..<n]) | Some k \<Rightarrow> rev [0..<n])"

definition demo_library :: "(cell option, (nat list \<times> cell) list, cell option) library" where
  "demo_library =
     \<lparr> word_tokenize = split_spaces [],
       stem = lower,
       stop_words = {''the''},
       permutation = demo_permutation,
       nb_fit = demo_nb_fit,
       nb_predict = demo_const_predict,
       rf_fit = demo_rf_fit,
       rf_predict = demo_rf_predict,
       svm_fit = demo_svm_fit,
       svm_predict = demo_const_predict,
       classification_report = (\<lambda>y_true y_pred. []) \<rparr>"

definition demo_data :: frame where
  "demo_data =
     [(''OrderId'', [CInt 1, CInt 2, CInt 3, CInt 4, CInt 5, CInt 6]),
      (''ShippingName'',
        [CStr ''Tan Wei'', CStr ''Siti Ali'', CStr ''Raj'', CStr ''the Lee'',
         CInt 7, CStr ''Nur Ali'']),
      (''Ethnicity'',
        [CStr ''Chinese'', CStr ''Malay'', CStr ''Indian'', CStr ''Others'',
         CBool False, CStr ''Malay''])]"

definition demo_new_data :: frame where
  "demo_new_data =
     [(''order'', [CInt 7, CInt 8, CInt 9, CInt 10]),
      (''shipping_firstname'', [CStr ''Mr Ali'', CNaN, CStr ''***'', CStr ''Raj''])]"

definition demo_now :: datetime where
  "demo_now = \<lparr> year = 2023, month = 10, day = 5, hour = 14, minute = 3, second = 9 \<rparr>"

text \<open>The values the notebook computes on the example tables.\<close>

definition demo_evaluation :: "(cell option, (nat list \<times> cell) list, cell option) evaluation" where
  "demo_evaluation =
     \<lparr> data =
         [(''OrderId'', [CInt 1, CInt 2, CInt 3, CInt 4, CInt 6]),
          (''ShippingName'',
            [CStr ''Tan Wei'', CStr ''Siti Ali'', CStr ''Raj'', CStr ''the Lee'', CStr ''Nur Ali'']),
          (''Ethnicity'',
            [CStr ''Chinese'', CStr ''Malay'', CStr ''Indian'', CStr ''Others'', CStr ''Malay'']),
          (''processed_name'',
            [CStr ''tan wei'', CStr ''siti ali'', CStr ''raj'', CStr ''lee'', CStr ''nur ali''])],
       X_train = [''lee'', ''raj'', ''siti ali'', ''tan wei''],
       X_test = [''nur ali''],
       y_train = [CStr ''Others'', CStr ''Indian'', CStr ''Malay'', CStr ''Chinese''],
       y_test = [CStr ''Malay''],
       vectorizer = [''ali'', ''lee'', ''raj'', ''siti'', ''tan'', ''wei''],
       X_train_vectorized =
         [[0, 1, 0, 0, 0, 0], [0, 0, 1, 0, 0, 0], [1, 0, 0, 1, 0, 0], [0, 0, 0, 0, 1, 1]],
       X_test_vectorized = [[1, 0, 0, 0, 0, 0]],
       classifier = Some (CStr ''Others''),
       predictions = [CStr ''Others''],
       accuracy = 0,
       report_nb = [],
       cm_nb = [[0, 0, 0, 0], [0, 0, 0, 1], [0, 0, 0, 0], [0, 0, 0, 0]],
       rf_classifier =
         [([0, 1, 0, 0, 0, 0], CStr ''Others''), ([0, 0, 1, 0, 0, 0], CStr ''Indian''),
          ([1, 0, 0, 1, 0, 0], CStr ''Malay''), ([0, 0, 0, 0, 1, 1], CStr ''Chinese'')],
       rf_predictions = [CStr ''Malay''],
       rf_accuracy = 1,
       report_rf = [],
       cm_rf = [[0, 0, 0, 0], [0, 1, 0, 0], [0, 0, 0, 0], [0, 0, 0, 0]],
       svm_classifier = Some (CStr ''Chinese''),
       svm_predictions = [CStr ''Chinese''],
       svm_accuracy = 0,
       report_svm = [],
       cm_svm = [[0, 0, 0, 0], [1, 0, 0, 0], [0, 0, 0, 0], [0, 0, 0, 0]] \<rparr>"

definition demo_table :: frame where
  "demo_table =
     [(''order'', [CInt 7, CInt 8, CInt 9, CInt 10]),
      (''shipping_firstname'', [CStr ''Mr Ali'', CStr ''nan'', CStr ''***'', CStr ''Raj'']),
      (''processed_name'', [CStr ''mr ali'', CStr ''nan'', CStr '''', CStr ''raj'']),
      (''Predicted_Ethnicity_NB'',
        [CStr ''Others'', CStr ''Others'', CStr ''Others'', CStr ''Others'']),
      (''Predicted_Ethnicity_RF'',
        [CStr ''Malay'', CStr ''Others'', CStr ''Others'', CStr ''Indian'']),
      (''Predicted_Ethnicity_SVM'',
        [CStr ''Chinese'', CStr ''Others'', CStr ''Others'', CStr ''Chinese''])]"

definition demo_final :: "(cell option, (nat list \<times> cell) list, cell option) session" where
  "demo_final =
     \<lparr> trained = demo_evaluation,
       new_data = demo_table,
       new_data_vectorized =
         [[1, 0, 0, 0, 0, 0], [0, 0, 0, 0, 0, 0], [0, 0, 0, 0, 0, 0], [0, 0, 1, 0, 0, 0]],
       new_predictions_nb = [CStr ''Others'', CStr ''Others'', CStr ''Others'', CStr ''Others''],
       new_predictions_rf = [CStr ''Malay'', CStr ''Others'', CStr ''Others'', CStr ''Indian''],
       new_predictions_svm =
         [CStr ''Chinese'', CStr ''Others'', CStr ''Others'', CStr ''Chinese''] \<rparr>"

definition demo_outcome :: "(cell option, (nat list \<times> cell) list, cell option) outcome" where
  "demo_outcome =
     \<lparr> final = demo_final,
       current_datetime = ''05102023_140309PM'',
       written =
         [(''Data/Predictions/ecomm_demo_2023Q3_predicted_ethnicities_05102023_140309PM.xlsx'',
           demo_table)] \<rparr>"

text \<open>
  A second set of stand-ins follows the library's own arithmetic where it is exact.
  \<open>MultinomialNB\<close> with its default settings: the classes are the sorted distinct
  labels; a class has the prior (rows of the class) / (rows), and gives token \<open>j\<close> the
  probability (count of \<open>j\<close> in the class + 1) / (tokens counted in the class + number of
  features); the score of a class on a vector is its prior times the product of the
  token probabilities, each raised to the token's count, and the answer is the first class
  of the highest score. (The library adds logarithms in floating point, which orders the
  classes the same way unless two scores are so close that rounding decides.)
\<close>

definition class_rows :: "nat list list \<Rightarrow> cell list \<Rightarrow> cell \<Rightarrow> nat list list" where
  "class_rows X y c = map fst (filter (\<lambda>(x, v). v = c) (zip X y))"

definition feature_count :: "nat list list \<Rightarrow> nat \<Rightarrow> nat list" where
  "feature_count rows d = map (\<lambda>j. sum_list (map (\<lambda>x. x ! j) rows)) [0..<d]"

definition sorted_classes :: "cell list \<Rightarrow> cell list" where
  "sorted_classes y = map CStr (sort (remdups (map py_str y)))"

definition mnb_fit :: "nat list list \<Rightarrow> cell list \<Rightarrow> (cell \<times> rat \<times> rat list) list" where
  "mnb_fit X y =
     (let d = (case X of [] \<Rightarrow> 0 | x # rest \<Rightarrow> length x)
      in map (\<lambda>c. let counts = feature_count (class_rows X y c) d
                  in (c, of_nat (length (class_rows X y c)) / of_nat (length y),
                      map (\<lambda>n. of_nat (n + 1) / of_nat (sum_list counts + d)) counts))
           (sorted_classes y))"

definition mnb_score :: "rat \<times> rat list \<Rightarrow> nat list \<Rightarrow> rat" where
  "mnb_score m x = fst m * prod_list (map (\<lambda>(p, n). p ^ n) (zip (snd m) x))"

fun first_highest :: "cell \<times> rat \<Rightarrow> (cell \<times> rat) list \<Rightarrow> cell" where
  "first_highest (c, s) [] = c"
| "first_highest (c, s) ((c', s') # rest) =
     (if s < s' then first_highest (c', s') rest else first_highest (c, s) rest)"

definition mnb_predict :: "(cell \<times> rat \<times> rat list) list \<Rightarrow> nat list list \<Rightarrow> cell list" where
  "mnb_predict m X =
     (case m of [] \<Rightarrow> []
      | first # rest \<Rightarrow>
          map (\<lambda>x. first_highest (fst first, mnb_score (snd first) x)
                     (map (\<lambda>(c, pm). (c, mnb_score pm x)) rest)) X)"

text \<open>
  The shuffle that \<open>train_test_split\<close> draws from \<open>random_state=42\<close> for five rows is
  1, 4, 2, 0, 3 (the library's documentation shows the split it gives). For any other
  number of rows or seed the stand-in leaves the rows in order.
\<close>

definition seed42_permutation :: "nat \<Rightarrow> nat option \<Rightarrow> nat \<Rightarrow> nat list" where
  "seed42_permutation g seed n =
     (if seed = Some 42 \<and> n = 5 then [1, 4, 2, 0, 3] else [0..<n])"

text \<open>
  The forest and the kernel machine are numerical procedures and are not reproduced. In
  their place stands the rule that answers with the label of the closest training vector
  (the first one among equally close ones). In the examples below every vector asked for
  occurs in the training part, under one label. \<open>SVC\<close> answers with that label there:
  its default kernel is \<open>exp(-gamma * d * d)\<close> at distance \<open>d\<close>, with \<open>gamma = 8/3\<close> for
  these training vectors, so that a training vector weighs 1 at itself and less than 0.07
  at any other, and both pairwise votes that involve the label go to it. No statement
  below depends on what the forest answers.
\<close>

definition sq_dist :: "nat list \<Rightarrow> nat list \<Rightarrow> nat" where
  "sq_dist x x' = sum_list (map (\<lambda>(a, b). (if a < b then b - a else a - b) ^ 2) (zip x x'))"

definition nearest_fit ::
  "nat \<Rightarrow> nat option \<Rightarrow> nat list list \<Rightarrow> cell list \<Rightarrow> (nat list \<times> cell) list" where
  "nearest_fit g seed X y = zip X y"

fun closest :: "nat list \<Rightarrow> nat list \<times> cell \<Rightarrow> (nat list \<times> cell) list \<Rightarrow> cell" where
  "closest x (x0, v0) [] = v0"
| "closest x (x0, v0) ((x1, v1) # rest) =
     (if sq_dist x x1 < sq_dist x x0 then closest x (x1, v1) rest else closest x (x0, v0) rest)"

definition nearest_predict :: "(nat list \<times> cell) list \<Rightarrow> nat list list \<Rightarrow> cell list" where
  "nearest_predict m X = (case m of [] \<Rightarrow> [] | p # rest \<Rightarrow> map (\<lambda>x. closest x p rest) X)"

definition exact_library ::
  "((cell \<times> rat \<times> rat list) list, (nat list \<times> cell) list, (nat list \<times> cell) list) library" where
  "exact_library =
     \<lparr> word_tokenize = split_spaces [],
       stem = lower,
       stop_words = {''the''},
       permutation = seed42_permutation,
       nb_fit = mnb_fit,
       nb_predict = mnb_predict,
       rf_fit = nearest_fit,
       rf_predict = nearest_predict,
       svm_fit = nearest_fit,
       svm_predict = nearest_predict,
       classification_report = (\<lambda>y_true y_pred. []) \<rparr>"

text \<open>
  Two training tables of five rows for these stand-ins. They differ in the spelling of the
  labels only: the first uses three of the four classes of the specification, the second
  has no label longer than five characters. Two names are masked and leave no token.
  The new table has one name and one row without a name.
\<close>

definition masked_data :: frame where
  "masked_data =
     [(''OrderId'', [CInt 1, CInt 2, CInt 3, CInt 4, CInt 5]),
      (''ShippingName'', [CStr ''Ali'', CStr ''Ali'', CStr ''***'', CStr ''Raj'', CStr ''***'']),
      (''Ethnicity'',
        [CStr ''Malay'', CStr ''Malay'', CStr ''Chinese'', CStr ''Indian'', CStr ''Chinese''])]"

definition masked_evaluation ::
  "((cell \<times> rat \<times> rat list) list, (nat list \<times> cell) list,
    (nat list \<times> cell) list) evaluation" where
  "masked_evaluation =
     \<lparr> data =
         [(''OrderId'', [CInt 1, CInt 2, CInt 3, CInt 4, CInt 5]),
          (''ShippingName'', [CStr ''Ali'', CStr ''Ali'', CStr ''***'', CStr ''Raj'', CStr ''***'']),
          (''Ethnicity'',
            [CStr ''Malay'', CStr ''Malay'', CStr ''Chinese'', CStr ''Indian'', CStr ''Chinese'']),
          (''processed_name'', [CStr ''ali'', CStr ''ali'', CStr '''', CStr ''raj'', CStr ''''])],
       X_train = ['''', '''', ''ali'', ''raj''],
       X_test = [''ali''],
       y_train = [CStr ''Chinese'', CStr ''Chinese'', CStr ''Malay'', CStr ''Indian''],
       y_test = [CStr ''Malay''],
       vectorizer = [''ali'', ''raj''],
       X_train_vectorized = [[0, 0], [0, 0], [1, 0], [0, 1]],
       X_test_vectorized = [[1, 0]],
       classifier =
         [(CStr ''Chinese'', 1 / 2, [1 / 2, 1 / 2]), (CStr ''Indian'', 1 / 4, [1 / 3, 2 / 3]),
          (CStr ''Malay'', 1 / 4, [2 / 3, 1 / 3])],
       predictions = [CStr ''Chinese''],
       accuracy = 0,
       report_nb = [],
       cm_nb = [[0, 1, 0], [0, 0, 0], [0, 0, 0]],
       rf_classifier =
         [([0, 0], CStr ''Chinese''), ([0, 0], CStr ''Chinese''), ([1, 0], CStr ''Malay''),
          ([0, 1], CStr ''Indian'')],
       rf_predictions = [CStr ''Malay''],
       rf_accuracy = 1,
       report_rf = [],
       cm_rf = [[1, 0, 0], [0, 0, 0], [0, 0, 0]],
       svm_classifier =
         [([0, 0], CStr ''Chinese''), ([0, 0], CStr ''Chinese''), ([1, 0], CStr ''Malay''),
          ([0, 1], CStr ''Indian'')],
       svm_predictions = [CStr ''Malay''],
       svm_accuracy = 1,
       report_svm = [],
       cm_svm = [[1, 0, 0], [0, 0, 0], [0, 0, 0]] \<rparr>"

definition masked_table :: frame where
  "masked_table =
     [(''order'', [CInt 6, CInt 7]),
      (''shipping_firstname'', [CStr ''Raj'', CStr ''nan'']),
      (''processed_name'', [CStr ''raj'', CStr ''nan'']),
      (''Predicted_Ethnicity_NB'', [CStr ''Chinese'', CStr ''Others'']),
      (''Predicted_Ethnicity_RF'', [CStr ''Indian'', CStr ''Others'']),
      (''Predicted_Ethnicity_SVM'', [CStr ''Indian'', CStr ''Others''])]"

definition masked_final ::
  "((cell \<times> rat \<times> rat list) list, (nat list \<times> cell) list,
    (nat list \<times> cell) list) session" where
  "masked_final =
     \<lparr> trained = masked_evaluation,
       new_data = masked_table,
       new_data_vectorized = [[0, 1], [0, 0]],
       new_predictions_nb = [CStr ''Chinese'', CStr ''Others''],
       new_predictions_rf = [CStr ''Indian'', CStr ''Others''],
       new_predictions_svm = [CStr ''Indian'', CStr ''Others''] \<rparr>"

definition masked_outcome ::
  "((cell \<times> rat \<times> rat list) list, (nat list \<times> cell) list,
    (nat list \<times> cell) list) outcome" where
  "masked_outcome =
     \<lparr> final = masked_final,
       current_datetime = ''05102023_140309PM'',
       written =
         [(''Data/Predictions/ecomm_demo_2023Q3_predicted_ethnicities_05102023_140309PM.xlsx'',
           masked_table)] \<rparr>"






definition masked_new_data :: frame where
  "masked_new_data =
     [(''order'', [CInt 6, CInt 7]),
      (''shipping_firstname'', [CStr ''Raj'', CNaN])]"



section \<open>Notions of the specification\<close>

text \<open>The four ethnicity classes the specification names.\<close>

definition four_classes :: "cell set" where
  "four_classes = {CStr ''Malay'', CStr ''Indian'', CStr ''Chinese'', CStr ''Others''}"

text \<open>
  The three models, the column each one's predictions are written to, and the accuracy
  the evaluation measured for each.
\<close>

datatype model = NaiveBayes | RandomForest | SupportVector

definition all_models :: "model list" where
  "all_models = [NaiveBayes, RandomForest, SupportVector]"

fun prediction_column :: "model \<Rightarrow> string" where
  "prediction_column NaiveBayes = ''Predicted_Ethnicity_NB''"
| "prediction_column RandomForest = ''Predicted_Ethnicity_RF''"
| "prediction_column SupportVector = ''Predicted_Ethnicity_SVM''"

fun model_accuracy :: "('nb, 'rf, 'svm) evaluation \<Rightarrow> model \<Rightarrow> rat" where
  "model_accuracy ev NaiveBayes = accuracy ev"
| "model_accuracy ev RandomForest = rf_accuracy ev"
| "model_accuracy ev SupportVector = svm_accuracy ev"

text \<open>
  The specification's sentence that the best-trained models are the ones applied to the
  unlabeled data: the models whose predictions a run emits are those no other model beat
  on the held-out data.
\<close>

definition best_models :: "('nb, 'rf, 'svm) evaluation \<Rightarrow> model list" where
  "best_models ev =
     filter (\<lambda>m. list_all (\<lambda>m'. model_accuracy ev m' \<le> model_accuracy ev m) all_models) all_models"

definition emitted_models :: "('nb, 'rf, 'svm) outcome \<Rightarrow> model list" where
  "emitted_models out =
     filter (\<lambda>m. list_ex (\<lambda>(path, table). get_col table (prediction_column m) \<noteq> None) (written out))
       all_models"

definition spec_emits_best_models :: "('nb, 'rf, 'svm) outcome \<Rightarrow> bool" where
  "spec_emits_best_models out = (emitted_models out = best_models (trained (final out)))"

text \<open>
  The specification's sentence that the predictions file contains every row of the
  unlabeled dataset: each column of the input is in the file with its values.
\<close>

definition spec_rows_unchanged :: "frame \<Rightarrow> frame \<Rightarrow> bool" where
  "spec_rows_unchanged new0 table = list_all (\<lambda>(c, vs). get_col table c = Some vs) new0"





section \<open>Properties of the text preprocessing\<close>

lemma stem_kept_filter:
  "stem_kept L acc ws =
     acc @ map (stem L) (filter (\<lambda>w. isalpha w \<and> lower w \<notin> stop_words L) ws)"
  by (induction ws arbitrary: acc) simp_all

lemma join_concat:
  "join sep (w # ws) = w @ concat (map (\<lambda>v. sep @ v) ws)"
  by (induction ws arbitrary: w) simp_all

lemma join_spec: "join '' '' ws = spec_space_separated ws"
proof (cases ws)
  case Nil
  then show ?thesis by (simp add: spec_space_separated_def)
next
  case (Cons w rest)
  have space: "(\<lambda>v. '' '' @ v) = (\<lambda>v. CHR '' '' # v)"
    by (rule ext) simp
  have "join '' '' (w # rest) = w @ concat (map (\<lambda>v. '' '' @ v) rest)"
    by (rule join_concat)
  with Cons show ?thesis by (simp add: spec_space_separated_def space)
qed

lemma preprocess_text_example:
  "preprocess_text demo_library ''the Lee 42 *x* Tan'' = ''lee tan''"
  by code_simp

text \<open>
  Claim C2. For every input string, \<open>preprocess_text\<close> returns the space-separated join of
  the stems of exactly those tokens of \<open>word_tokenize\<close> that are purely alphabetic and whose
  lowercase form is not a stopword, in the tokens' order; every other token is dropped.
\<close>

theorem preprocess_text_refines_spec:
  "preprocess_text L text = spec_normalize L text"
  by (simp add: preprocess_text_def spec_normalize_def spec_kept_tokens_def
      stem_kept_filter join_spec)

section \<open>Lemmas about the cells\<close>

lemma get_put_col_same: "get_col (put_col name vals df) name = Some vals"
  by (induction df) (auto simp: get_col_def)

lemma get_put_col_other: "c \<noteq> name \<Longrightarrow> get_col (put_col name vals df) c = get_col df c"
  by (induction df) (auto simp: get_col_def)


lemma set_col_put: "set_col name vals df = Some df' \<Longrightarrow> df' = put_col name vals df"
  by (simp add: set_col_def split: if_splits)

lemma get_set_col_same: "set_col name vals df = Some df' \<Longrightarrow> get_col df' name = Some vals"
  by (drule set_col_put) (simp add: get_put_col_same)

lemma get_set_col_other:
  "set_col name vals df = Some df' \<Longrightarrow> c \<noteq> name \<Longrightarrow> get_col df' c = get_col df c"
  by (drule set_col_put) (simp add: get_put_col_other)




lemma those_str_of: "those (map str_of col) = Some xs \<Longrightarrow> col = map CStr xs"
proof (induction col arbitrary: xs)
  case Nil then show ?case by simp
next
  case (Cons v col)
  then show ?case by (cases v) (auto split: option.splits)
qed

lemma mask_assign_length:
  "mask_assign dt arr flags v = Some arr' \<Longrightarrow> length arr' = length arr \<and> length flags = length arr"
  by (auto simp: mask_assign_def split: if_splits)

lemma mask_assign_nth:
  "mask_assign dt arr flags v = Some arr' \<Longrightarrow> i < length arr \<Longrightarrow>
     arr' ! i = (if flags ! i then store dt v else arr ! i)"
  by (auto simp: mask_assign_def split: if_splits)

lemma run_stages:
  "run L g now raw new0 = Some out \<Longrightarrow>
     \<exists>ev s0 s1 s2. train_and_evaluate L g raw = Some ev \<and> predict_new L ev new0 = Some s0 \<and>
        substitute_cases exceptional_cases s0 = Some s1 \<and> add_predictions s1 = Some s2 \<and>
        out = export now s2"
  by (auto simp: run_def bind_eq_Some_conv)

lemma those_str_of_astype: "those (map str_of (astype_str names)) = Some (map py_str names)"
  by (induction names) (simp_all add: astype_str_def)

lemma those_str_of_CStr: "those (map str_of (map CStr xs)) = Some xs"
  by (induction xs) simp_all

lemma apply_preprocess_astype:
  "apply_preprocess L (astype_str names)
     = Some (map (\<lambda>v. CStr (preprocess_text L (py_str v))) names)"
  by (simp add: apply_preprocess_def those_str_of_astype comp_def)

lemma predict_new_spec:
  assumes "predict_new L ev new0 = Some s0"
  shows "\<exists>names.
     get_col new0 ''shipping_firstname'' = Some names \<and>
     get_col (new_data s0) ''shipping_firstname'' = Some (astype_str names) \<and>
     get_col (new_data s0) ''processed_name''
       = Some (map (\<lambda>v. CStr (preprocess_text L (py_str v))) names) \<and>
     (\<forall>c. c \<noteq> ''shipping_firstname'' \<and> c \<noteq> ''processed_name''
        \<longrightarrow> get_col (new_data s0) c = get_col new0 c) \<and>
     trained s0 = ev \<and>
     new_data_vectorized s0
       = transform (vectorizer ev) (map (\<lambda>v. preprocess_text L (py_str v)) names) \<and>
     new_predictions_nb s0 = nb_predict L (classifier ev) (new_data_vectorized s0) \<and>
     new_predictions_rf s0 = rf_predict L (rf_classifier ev) (new_data_vectorized s0) \<and>
     new_predictions_svm s0 = svm_predict L (svm_classifier ev) (new_data_vectorized s0)"
proof -
  from assms obtain names new1 names1 processed new2 docs_col docs where
    n: "get_col new0 ''shipping_firstname'' = Some names" and
    n1: "set_col ''shipping_firstname'' (astype_str names) new0 = Some new1" and
    g1: "get_col new1 ''shipping_firstname'' = Some names1" and
    p: "apply_preprocess L names1 = Some processed" and
    n2: "set_col ''processed_name'' processed new1 = Some new2" and
    dc: "get_col new2 ''processed_name'' = Some docs_col" and
    d: "those (map str_of docs_col) = Some docs" and
    s: "s0 = \<lparr> trained = ev, new_data = new2,
            new_data_vectorized = transform (vectorizer ev) docs,
            new_predictions_nb = nb_predict L (classifier ev) (transform (vectorizer ev) docs),
            new_predictions_rf = rf_predict L (rf_classifier ev) (transform (vectorizer ev) docs),
            new_predictions_svm = svm_predict L (svm_classifier ev) (transform (vectorizer ev) docs) \<rparr>"
    by (auto simp: predict_new_def bind_eq_Some_conv)
  have names1: "names1 = astype_str names"
    using get_set_col_same [OF n1] g1 by simp
  have processed: "processed = map (\<lambda>v. CStr (preprocess_text L (py_str v))) names"
    using p by (simp add: names1 apply_preprocess_astype)
  have docs_col: "docs_col = processed"
    using get_set_col_same [OF n2] dc by simp
  have "map CStr docs = map CStr (map (\<lambda>v. preprocess_text L (py_str v)) names)"
    using those_str_of [OF d] by (simp add: docs_col processed comp_def)
  moreover have "inj CStr"
    by (simp add: inj_def)
  ultimately have docs: "docs = map (\<lambda>v. preprocess_text L (py_str v)) names"
    by (simp only: inj_map_eq_map)
  have sf: "get_col new2 ''shipping_firstname'' = Some (astype_str names)"
    using get_set_col_other [OF n2, of "''shipping_firstname''"] get_set_col_same [OF n1]
    by simp
  have other: "get_col new2 c = get_col new0 c"
    if "c \<noteq> ''shipping_firstname''" "c \<noteq> ''processed_name''" for c
    using that get_set_col_other [OF n2, of c] get_set_col_other [OF n1, of c] by simp
  show ?thesis
    using n sf dc docs_col processed other docs by (simp add: s)
qed

lemma substitute_cases_frame:
  "substitute_cases cs s = Some s' \<Longrightarrow>
     new_data s' = new_data s \<and> trained s' = trained s \<and>
     new_data_vectorized s' = new_data_vectorized s \<and>
     length (new_predictions_nb s') = length (new_predictions_nb s) \<and>
     length (new_predictions_rf s') = length (new_predictions_rf s) \<and>
     length (new_predictions_svm s') = length (new_predictions_svm s)"
proof (induction cs arbitrary: s)
  case Nil
  then show ?case by simp
next
  case (Cons c cs)
  from Cons.prems obtain processed nb_items nb rf svm where
    nb: "mask_assign nb_items (new_predictions_nb s) (eq_mask processed c) ''Others'' = Some nb" and
    rf: "mask_assign Object (new_predictions_rf s) (eq_mask processed c) ''Others'' = Some rf" and
    svm: "mask_assign Object (new_predictions_svm s) (eq_mask processed c) ''Others'' = Some svm" and
    rest: "substitute_cases cs
             (s\<lparr>new_predictions_nb := nb, new_predictions_rf := rf, new_predictions_svm := svm\<rparr>)
           = Some s'"
    by (auto simp: bind_eq_Some_conv)
  from Cons.IH [OF rest] mask_assign_length [OF nb] mask_assign_length [OF rf]
    mask_assign_length [OF svm]
  show ?case by simp
qed

lemma substitute_cases_lengths:
  "substitute_cases (c # cs) s = Some s' \<Longrightarrow>
     get_col (new_data s) ''processed_name'' = Some processed \<Longrightarrow>
     length (new_predictions_nb s) = length processed \<and>
     length (new_predictions_rf s) = length processed \<and>
     length (new_predictions_svm s) = length processed"
  by (auto simp: bind_eq_Some_conv eq_mask_def dest!: mask_assign_length)

lemma item_width_ge: "v \<in> set labels \<Longrightarrow> length (py_str v) \<le> item_width labels"
  unfolding item_width_def by (induction labels) auto


lemma two_classes_distinct:
  assumes "2 \<le> length (remdups ys)"
  shows "\<exists>v\<in>set ys. v \<noteq> u"
proof (rule ccontr)
  assume "\<not> (\<exists>v\<in>set ys. v \<noteq> u)"
  then have "set ys \<subseteq> {u}" by auto
  then have "card (set ys) \<le> card {u}" by (intro card_mono) simp_all
  with assms show False by (simp add: length_remdups_card_conv)
qed

lemma nb_dtype_Some: "nb_dtype labels = Some dt \<Longrightarrow> dt = FixedWidth (item_width labels)"
  by (simp add: nb_dtype_def split: if_splits)

lemma substitute_cases_nth:
  "substitute_cases cs s = Some s' \<Longrightarrow>
     get_col (new_data s) ''processed_name'' = Some processed \<Longrightarrow>
     i < length processed \<Longrightarrow>
     length (new_predictions_nb s) = length processed \<Longrightarrow>
     length (new_predictions_rf s) = length processed \<Longrightarrow>
     length (new_predictions_svm s) = length processed \<Longrightarrow>
     new_predictions_nb s' ! i
       = (if \<exists>c\<in>set cs. py_eq (processed ! i) (CStr c)
          then CStr (take (item_width (y_train (trained s))) ''Others'')
          else new_predictions_nb s ! i) \<and>
     new_predictions_rf s' ! i
       = (if \<exists>c\<in>set cs. py_eq (processed ! i) (CStr c) then CStr ''Others''
          else new_predictions_rf s ! i) \<and>
     new_predictions_svm s' ! i
       = (if \<exists>c\<in>set cs. py_eq (processed ! i) (CStr c) then CStr ''Others''
          else new_predictions_svm s ! i)"
proof (induction cs arbitrary: s)
  case Nil
  then show ?case by simp
next
  case (Cons c cs)
  from Cons.prems(1,2) obtain nb_items nb rf svm where
    dt: "nb_dtype (y_train (trained s)) = Some nb_items" and
    nb: "mask_assign nb_items (new_predictions_nb s) (eq_mask processed c) ''Others'' = Some nb" and
    rf: "mask_assign Object (new_predictions_rf s) (eq_mask processed c) ''Others'' = Some rf" and
    svm: "mask_assign Object (new_predictions_svm s) (eq_mask processed c) ''Others'' = Some svm" and
    rest: "substitute_cases cs
             (s\<lparr>new_predictions_nb := nb, new_predictions_rf := rf, new_predictions_svm := svm\<rparr>)
           = Some s'"
    by (auto simp: bind_eq_Some_conv)
  let ?s = "s\<lparr>new_predictions_nb := nb, new_predictions_rf := rf, new_predictions_svm := svm\<rparr>"
  let ?cut = "CStr (take (item_width (y_train (trained s))) ''Others'')"
  have flag: "eq_mask processed c ! i = py_eq (processed ! i) (CStr c)"
    using Cons.prems(3) by (simp add: eq_mask_def)
  have cut: "store nb_items ''Others'' = ?cut"
    by (simp only: nb_dtype_Some [OF dt] store.simps)
  have step:
    "nb ! i = (if py_eq (processed ! i) (CStr c) then ?cut else new_predictions_nb s ! i)"
    "rf ! i = (if py_eq (processed ! i) (CStr c) then CStr ''Others'' else new_predictions_rf s ! i)"
    "svm ! i = (if py_eq (processed ! i) (CStr c) then CStr ''Others'' else new_predictions_svm s ! i)"
    using mask_assign_nth [OF nb, of i] mask_assign_nth [OF rf, of i] mask_assign_nth [OF svm, of i]
      Cons.prems(3-6) flag cut by simp_all
  have ih: "new_predictions_nb s' ! i
       = (if \<exists>c\<in>set cs. py_eq (processed ! i) (CStr c) then ?cut else nb ! i) \<and>
     new_predictions_rf s' ! i
       = (if \<exists>c\<in>set cs. py_eq (processed ! i) (CStr c) then CStr ''Others'' else rf ! i) \<and>
     new_predictions_svm s' ! i
       = (if \<exists>c\<in>set cs. py_eq (processed ! i) (CStr c) then CStr ''Others'' else svm ! i)"
    using Cons.IH [OF rest, simplified, OF Cons.prems(2,3)]
      mask_assign_length [OF nb] mask_assign_length [OF rf] mask_assign_length [OF svm]
      Cons.prems(4-6) by simp
  show ?case using ih step by auto
qed

lemma substitute_cases_strings:
  "substitute_cases (c # cs) s = Some s' \<Longrightarrow> list_all is_str (y_train (trained s))"
  by (auto simp: bind_eq_Some_conv nb_dtype_def split: if_splits)

lemma add_predictions_spec:
  assumes "add_predictions s = Some s'"
  shows "get_col (new_data s') ''Predicted_Ethnicity_NB'' = Some (new_predictions_nb s) \<and>
     get_col (new_data s') ''Predicted_Ethnicity_RF'' = Some (new_predictions_rf s) \<and>
     get_col (new_data s') ''Predicted_Ethnicity_SVM'' = Some (new_predictions_svm s) \<and>
     (\<forall>c. c \<noteq> ''Predicted_Ethnicity_NB'' \<and> c \<noteq> ''Predicted_Ethnicity_RF'' \<and>
          c \<noteq> ''Predicted_Ethnicity_SVM'' \<longrightarrow> get_col (new_data s') c = get_col (new_data s) c) \<and>
     trained s' = trained s \<and> new_data_vectorized s' = new_data_vectorized s \<and>
     new_predictions_nb s' = new_predictions_nb s \<and>
     new_predictions_rf s' = new_predictions_rf s \<and>
     new_predictions_svm s' = new_predictions_svm s"
proof -
  from assms obtain d1 d2 d3 where
    d1: "set_col ''Predicted_Ethnicity_NB'' (new_predictions_nb s) (new_data s) = Some d1" and
    d2: "set_col ''Predicted_Ethnicity_RF'' (new_predictions_rf s) d1 = Some d2" and
    d3: "set_col ''Predicted_Ethnicity_SVM'' (new_predictions_svm s) d2 = Some d3" and
    s': "s' = s\<lparr>new_data := d3\<rparr>"
    by (auto simp: add_predictions_def bind_eq_Some_conv)
  have nb: "get_col d3 ''Predicted_Ethnicity_NB'' = Some (new_predictions_nb s)"
    using get_set_col_other [OF d3, of "''Predicted_Ethnicity_NB''"]
      get_set_col_other [OF d2, of "''Predicted_Ethnicity_NB''"] get_set_col_same [OF d1]
    by simp
  have rf: "get_col d3 ''Predicted_Ethnicity_RF'' = Some (new_predictions_rf s)"
    using get_set_col_other [OF d3, of "''Predicted_Ethnicity_RF''"] get_set_col_same [OF d2]
    by simp
  have svm: "get_col d3 ''Predicted_Ethnicity_SVM'' = Some (new_predictions_svm s)"
    using get_set_col_same [OF d3] by simp
  have other: "get_col d3 c = get_col (new_data s) c"
    if "c \<noteq> ''Predicted_Ethnicity_NB''" "c \<noteq> ''Predicted_Ethnicity_RF''"
       "c \<noteq> ''Predicted_Ethnicity_SVM''" for c
    using that get_set_col_other [OF d3, of c] get_set_col_other [OF d2, of c]
      get_set_col_other [OF d1, of c] by simp
  show ?thesis using nb rf svm other by (simp add: s')
qed

lemma run_names:
  assumes "run L g now raw new0 = Some out"
  shows "\<exists>names. get_col new0 ''shipping_firstname'' = Some names"
proof -
  from run_stages [OF assms] obtain ev s0 where "predict_new L ev new0 = Some s0"
    by blast
  from predict_new_spec [OF this] show ?thesis by blast
qed

lemma run_output:
  assumes "run L g now raw new0 = Some out"
    and "get_col new0 ''shipping_firstname'' = Some names"
  shows "train_and_evaluate L g raw = Some (trained (final out))"
    and "current_datetime out = strftime now"
    and "written out = [(''Data/Predictions/ecomm_demo_2023Q3_predicted_ethnicities_''
                      @ strftime now @ ''.xlsx'', new_data (final out))]"
    and "get_col (new_data (final out)) ''shipping_firstname'' = Some (astype_str names)"
    and "get_col (new_data (final out)) ''processed_name''
       = Some (map (\<lambda>v. CStr (preprocess_text L (py_str v))) names)"
    and "get_col (new_data (final out)) ''Predicted_Ethnicity_NB''
       = Some (new_predictions_nb (final out))"
    and "get_col (new_data (final out)) ''Predicted_Ethnicity_RF''
       = Some (new_predictions_rf (final out))"
    and "get_col (new_data (final out)) ''Predicted_Ethnicity_SVM''
       = Some (new_predictions_svm (final out))"
    and "\<forall>c. c \<noteq> ''shipping_firstname'' \<and> c \<noteq> ''processed_name'' \<and>
          c \<noteq> ''Predicted_Ethnicity_NB'' \<and> c \<noteq> ''Predicted_Ethnicity_RF'' \<and>
          c \<noteq> ''Predicted_Ethnicity_SVM''
        \<longrightarrow> get_col (new_data (final out)) c = get_col new0 c"
    and "new_data_vectorized (final out)
       = transform (vectorizer (trained (final out)))
           (map (\<lambda>v. preprocess_text L (py_str v)) names)"
    and "length (new_predictions_nb (final out)) = length names"
    and "length (new_predictions_rf (final out)) = length names"
    and "length (new_predictions_svm (final out)) = length names"
    and "length (nb_predict L (classifier (trained (final out)))
           (new_data_vectorized (final out))) = length names"
    and "length (rf_predict L (rf_classifier (trained (final out)))
           (new_data_vectorized (final out))) = length names"
    and "length (svm_predict L (svm_classifier (trained (final out)))
           (new_data_vectorized (final out))) = length names"
    and "\<forall>i<length names.
        new_predictions_nb (final out) ! i
          = (if preprocess_text L (py_str (names ! i)) \<in> {''nan'', ''''}
             then CStr (take (item_width (y_train (trained (final out)))) ''Others'')
             else nb_predict L (classifier (trained (final out)))
                    (new_data_vectorized (final out)) ! i) \<and>
        new_predictions_rf (final out) ! i
          = (if preprocess_text L (py_str (names ! i)) \<in> {''nan'', ''''} then CStr ''Others''
             else rf_predict L (rf_classifier (trained (final out)))
                    (new_data_vectorized (final out)) ! i) \<and>
        new_predictions_svm (final out) ! i
          = (if preprocess_text L (py_str (names ! i)) \<in> {''nan'', ''''} then CStr ''Others''
             else svm_predict L (svm_classifier (trained (final out)))
                    (new_data_vectorized (final out)) ! i)"
    and "list_all is_str (y_train (trained (final out)))"
proof -
  from run_stages [OF assms(1)] obtain ev s0 s1 s2 where
    ev: "train_and_evaluate L g raw = Some ev" and
    s0: "predict_new L ev new0 = Some s0" and
    s1: "substitute_cases exceptional_cases s0 = Some s1" and
    s2: "add_predictions s1 = Some s2" and
    out: "out = export now s2"
    by blast
  from predict_new_spec [OF s0] assms(2) have
    names: "get_col new0 ''shipping_firstname'' = Some names" and
    sf0: "get_col (new_data s0) ''shipping_firstname'' = Some (astype_str names)" and
    pn0: "get_col (new_data s0) ''processed_name''
            = Some (map (\<lambda>v. CStr (preprocess_text L (py_str v))) names)" and
    other0: "\<forall>c. c \<noteq> ''shipping_firstname'' \<and> c \<noteq> ''processed_name''
               \<longrightarrow> get_col (new_data s0) c = get_col new0 c" and
    tr0: "trained s0 = ev" and
    vec0: "new_data_vectorized s0
             = transform (vectorizer ev) (map (\<lambda>v. preprocess_text L (py_str v)) names)" and
    raw0: "new_predictions_nb s0 = nb_predict L (classifier ev) (new_data_vectorized s0)"
          "new_predictions_rf s0 = rf_predict L (rf_classifier ev) (new_data_vectorized s0)"
          "new_predictions_svm s0 = svm_predict L (svm_classifier ev) (new_data_vectorized s0)"
    by auto
  let ?processed = "map (\<lambda>v. CStr (preprocess_text L (py_str v))) names"
  note fr1 = substitute_cases_frame [OF s1]
  have len0: "length (new_predictions_nb s0) = length ?processed \<and>
              length (new_predictions_rf s0) = length ?processed \<and>
              length (new_predictions_svm s0) = length ?processed"
    using s1 pn0 unfolding exceptional_cases_def by (rule substitute_cases_lengths)
  have nth1: "new_predictions_nb s1 ! i
          = (if preprocess_text L (py_str (names ! i)) \<in> {''nan'', ''''}
             then CStr (take (item_width (y_train ev)) ''Others'')
             else new_predictions_nb s0 ! i) \<and>
        new_predictions_rf s1 ! i
          = (if preprocess_text L (py_str (names ! i)) \<in> {''nan'', ''''} then CStr ''Others''
             else new_predictions_rf s0 ! i) \<and>
        new_predictions_svm s1 ! i
          = (if preprocess_text L (py_str (names ! i)) \<in> {''nan'', ''''} then CStr ''Others''
             else new_predictions_svm s0 ! i)" if "i < length names" for i
  proof -
    have i: "i < length ?processed" using that by simp
    from substitute_cases_nth [OF s1 pn0 i] len0 that
    show ?thesis by (simp add: exceptional_cases_def tr0)
  qed
  note ad = add_predictions_spec [OF s2]
  have fin: "final out = s2" "current_datetime out = strftime now"
    "written out = [(''Data/Predictions/ecomm_demo_2023Q3_predicted_ethnicities_''
                      @ strftime now @ ''.xlsx'', new_data s2)]"
    by (simp_all add: out export_def)
  have c1: "trained s2 = ev" using ad fr1 tr0 by simp
  have c2: "get_col (new_data s2) ''shipping_firstname'' = Some (astype_str names)"
    using ad fr1 sf0 by simp
  have c3: "get_col (new_data s2) ''processed_name'' = Some ?processed"
    using ad fr1 pn0 by simp
  have c4: "get_col (new_data s2) ''Predicted_Ethnicity_NB'' = Some (new_predictions_nb s2)"
    "get_col (new_data s2) ''Predicted_Ethnicity_RF'' = Some (new_predictions_rf s2)"
    "get_col (new_data s2) ''Predicted_Ethnicity_SVM'' = Some (new_predictions_svm s2)"
    using ad by simp_all
  have c5: "\<forall>c. c \<noteq> ''shipping_firstname'' \<and> c \<noteq> ''processed_name'' \<and>
          c \<noteq> ''Predicted_Ethnicity_NB'' \<and> c \<noteq> ''Predicted_Ethnicity_RF'' \<and>
          c \<noteq> ''Predicted_Ethnicity_SVM''
        \<longrightarrow> get_col (new_data s2) c = get_col new0 c"
  proof (intro allI impI)
    fix c
    assume "c \<noteq> ''shipping_firstname'' \<and> c \<noteq> ''processed_name'' \<and>
          c \<noteq> ''Predicted_Ethnicity_NB'' \<and> c \<noteq> ''Predicted_Ethnicity_RF'' \<and>
          c \<noteq> ''Predicted_Ethnicity_SVM''"
    then show "get_col (new_data s2) c = get_col new0 c"
      using ad fr1 other0 by simp
  qed
  have c6: "new_data_vectorized s2
       = transform (vectorizer ev) (map (\<lambda>v. preprocess_text L (py_str v)) names)"
    using ad fr1 vec0 by simp
  have c7: "length (new_predictions_nb s2) = length names"
    "length (new_predictions_rf s2) = length names"
    "length (new_predictions_svm s2) = length names"
    using ad fr1 len0 by simp_all
  have same: "new_predictions_nb s2 = new_predictions_nb s1"
    "new_predictions_rf s2 = new_predictions_rf s1"
    "new_predictions_svm s2 = new_predictions_svm s1"
    "new_data_vectorized s2 = new_data_vectorized s0"
    using ad fr1 by simp_all
  have c9: "length (nb_predict L (classifier ev) (new_data_vectorized s2)) = length names"
    "length (rf_predict L (rf_classifier ev) (new_data_vectorized s2)) = length names"
    "length (svm_predict L (svm_classifier ev) (new_data_vectorized s2)) = length names"
    using len0 raw0 by (simp_all only: same) simp_all
  have c8: "\<forall>i<length names.
        new_predictions_nb s2 ! i
          = (if preprocess_text L (py_str (names ! i)) \<in> {''nan'', ''''}
             then CStr (take (item_width (y_train ev)) ''Others'')
             else nb_predict L (classifier ev) (new_data_vectorized s2) ! i) \<and>
        new_predictions_rf s2 ! i
          = (if preprocess_text L (py_str (names ! i)) \<in> {''nan'', ''''} then CStr ''Others''
             else rf_predict L (rf_classifier ev) (new_data_vectorized s2) ! i) \<and>
        new_predictions_svm s2 ! i
          = (if preprocess_text L (py_str (names ! i)) \<in> {''nan'', ''''} then CStr ''Others''
             else svm_predict L (svm_classifier ev) (new_data_vectorized s2) ! i)"
    using nth1 raw0 by (simp only: same) simp
  show "train_and_evaluate L g raw = Some (trained (final out))"
    by (simp add: fin c1 ev)
  show "current_datetime out = strftime now"
    by (rule fin)
  show "written out = [(''Data/Predictions/ecomm_demo_2023Q3_predicted_ethnicities_''
                      @ strftime now @ ''.xlsx'', new_data (final out))]"
    by (simp only: fin)
  show "get_col (new_data (final out)) ''shipping_firstname'' = Some (astype_str names)"
    by (simp only: fin c2)
  show "get_col (new_data (final out)) ''processed_name''
       = Some (map (\<lambda>v. CStr (preprocess_text L (py_str v))) names)"
    by (simp only: fin c3)
  show "get_col (new_data (final out)) ''Predicted_Ethnicity_NB''
       = Some (new_predictions_nb (final out))"
    by (simp only: fin c4)
  show "get_col (new_data (final out)) ''Predicted_Ethnicity_RF''
       = Some (new_predictions_rf (final out))"
    by (simp only: fin c4)
  show "get_col (new_data (final out)) ''Predicted_Ethnicity_SVM''
       = Some (new_predictions_svm (final out))"
    by (simp only: fin c4)
  show "\<forall>c. c \<noteq> ''shipping_firstname'' \<and> c \<noteq> ''processed_name'' \<and>
          c \<noteq> ''Predicted_Ethnicity_NB'' \<and> c \<noteq> ''Predicted_Ethnicity_RF'' \<and>
          c \<noteq> ''Predicted_Ethnicity_SVM''
        \<longrightarrow> get_col (new_data (final out)) c = get_col new0 c"
    unfolding fin by (rule c5)
  show "new_data_vectorized (final out)
       = transform (vectorizer (trained (final out)))
           (map (\<lambda>v. preprocess_text L (py_str v)) names)"
    unfolding fin c1 by (rule c6)
  show "length (new_predictions_nb (final out)) = length names"
    unfolding fin by (rule c7)
  show "length (new_predictions_rf (final out)) = length names"
    unfolding fin by (rule c7)
  show "length (new_predictions_svm (final out)) = length names"
    unfolding fin by (rule c7)
  show "length (nb_predict L (classifier (trained (final out)))
           (new_data_vectorized (final out))) = length names"
    unfolding fin c1 by (rule c9)
  show "length (rf_predict L (rf_classifier (trained (final out)))
           (new_data_vectorized (final out))) = length names"
    unfolding fin c1 by (rule c9)
  show "length (svm_predict L (svm_classifier (trained (final out)))
           (new_data_vectorized (final out))) = length names"
    unfolding fin c1 by (rule c9)
  show "\<forall>i<length names.
        new_predictions_nb (final out) ! i
          = (if preprocess_text L (py_str (names ! i)) \<in> {''nan'', ''''}
             then CStr (take (item_width (y_train (trained (final out)))) ''Others'')
             else nb_predict L (classifier (trained (final out)))
                    (new_data_vectorized (final out)) ! i) \<and>
        new_predictions_rf (final out) ! i
          = (if preprocess_text L (py_str (names ! i)) \<in> {''nan'', ''''} then CStr ''Others''
             else rf_predict L (rf_classifier (trained (final out)))
                    (new_data_vectorized (final out)) ! i) \<and>
        new_predictions_svm (final out) ! i
          = (if preprocess_text L (py_str (names ! i)) \<in> {''nan'', ''''} then CStr ''Others''
             else svm_predict L (svm_classifier (trained (final out)))
                    (new_data_vectorized (final out)) ! i)"
    unfolding fin c1 by (rule c8)
  show "list_all is_str (y_train (trained (final out)))"
    using substitute_cases_strings [OF s1 [unfolded exceptional_cases_def]]
    by (simp add: fin c1 tr0)
qed

lemma take_rows_spec:
  "take_rows xs idx = Some ys \<Longrightarrow> ys = map ((!) xs) idx \<and> (\<forall>i\<in>set idx. i < length xs)"
proof (induction idx arbitrary: ys)
  case Nil
  then show ?case by (simp add: take_rows_def)
next
  case (Cons i idx)
  from Cons.prems obtain zs where
    i: "i < length xs" and zs: "take_rows xs idx = Some zs" and ys: "ys = xs ! i # zs"
    by (auto simp: take_rows_def split: if_splits option.splits)
  from Cons.IH [OF zs] i ys show ?case by simp
qed

lemma take_rows_subset: "take_rows xs idx = Some ys \<Longrightarrow> set ys \<subseteq> set xs"
  by (drule take_rows_spec) auto

lemma n_test_of_le: "n_test_of n \<le> n"
  by (simp add: n_test_of_def)

lemma split_indices_partition:
  assumes d: "distinct (permutation L g rs n)" and s: "set (permutation L g rs n) = {..<n}"
  shows "set (fst (split_indices L g rs n)) \<inter> set (snd (split_indices L g rs n)) = {} \<and>
         set (fst (split_indices L g rs n)) \<union> set (snd (split_indices L g rs n)) = {..<n} \<and>
         distinct (fst (split_indices L g rs n)) \<and> distinct (snd (split_indices L g rs n)) \<and>
         length (snd (split_indices L g rs n)) = n_test_of n \<and>
         length (fst (split_indices L g rs n)) = n - n_test_of n"
proof -
  let ?p = "permutation L g rs n"
  have len: "length ?p = n"
    using distinct_card [OF d] s by simp
  have tr: "fst (split_indices L g rs n) = drop (n_test_of n) ?p"
    by (simp add: split_indices_def Let_def len)
  have te: "snd (split_indices L g rs n) = take (n_test_of n) ?p"
    by (simp add: split_indices_def Let_def)
  have app: "take (n_test_of n) ?p @ drop (n_test_of n) ?p = ?p"
    by simp
  have dis: "distinct (take (n_test_of n) ?p @ drop (n_test_of n) ?p)"
    using d by simp
  have un: "set (take (n_test_of n) ?p) \<union> set (drop (n_test_of n) ?p) = {..<n}"
    using s set_append [of "take (n_test_of n) ?p" "drop (n_test_of n) ?p"] by simp
  from dis have "set (take (n_test_of n) ?p) \<inter> set (drop (n_test_of n) ?p) = {}"
    and "distinct (take (n_test_of n) ?p)" and "distinct (drop (n_test_of n) ?p)"
    by (simp_all only: distinct_append)
  with un show ?thesis
    using n_test_of_le [of n] by (simp add: tr te len Int_commute Un_commute min_def)
qed

lemma evaluate_spec:
  assumes "evaluate L table Xtr Xte ytr yte vocabulary nb rf svm = Some ev"
  shows "\<exists>labels. get_col table ''Ethnicity'' = Some labels \<and>
     data ev = table \<and> X_train ev = Xtr \<and> X_test ev = Xte \<and> y_train ev = ytr \<and>
     y_test ev = yte \<and> vectorizer ev = vocabulary \<and>
     X_train_vectorized ev = transform vocabulary Xtr \<and>
     X_test_vectorized ev = transform vocabulary Xte \<and>
     classifier ev = nb \<and> rf_classifier ev = rf \<and> svm_classifier ev = svm \<and>
     predictions ev = nb_predict L nb (transform vocabulary Xte) \<and>
     rf_predictions ev = rf_predict L rf (transform vocabulary Xte) \<and>
     svm_predictions ev = svm_predict L svm (transform vocabulary Xte) \<and>
     accuracy_score yte (predictions ev) = Some (accuracy ev) \<and>
     accuracy_score yte (rf_predictions ev) = Some (rf_accuracy ev) \<and>
     accuracy_score yte (svm_predictions ev) = Some (svm_accuracy ev) \<and>
     report_nb ev = classification_report L yte (predictions ev) \<and>
     report_rf ev = classification_report L yte (rf_predictions ev) \<and>
     report_svm ev = classification_report L yte (svm_predictions ev) \<and>
     confusion_matrix yte (predictions ev) (unique labels) = Some (cm_nb ev) \<and>
     confusion_matrix yte (rf_predictions ev) (unique labels) = Some (cm_rf ev) \<and>
     confusion_matrix yte (svm_predictions ev) (unique labels) = Some (cm_svm ev)"
  using assms by (auto simp: evaluate_def bind_eq_Some_conv)

lemma train_and_evaluate_spec:
  assumes "train_and_evaluate L g raw = Some ev"
  shows "\<exists>cleaned names y.
     clean raw = Some cleaned \<and>
     get_col cleaned ''ShippingName'' = Some (map CStr names) \<and>
     get_col (data ev) ''processed_name'' = Some (map (\<lambda>s. CStr (preprocess_text L s)) names) \<and>
     get_col (data ev) ''Ethnicity'' = Some y \<and>
     (\<forall>c. c \<noteq> ''processed_name'' \<longrightarrow> get_col (data ev) c = get_col cleaned c) \<and>
     train_test_split L g (Some 42) (map (preprocess_text L) names) y
       = Some (X_train ev, X_test ev, y_train ev, y_test ev) \<and>
     fit_vocabulary (X_train ev) = Some (vectorizer ev) \<and>
     evaluate L (data ev) (X_train ev) (X_test ev) (y_train ev) (y_test ev) (vectorizer ev)
       (nb_fit L (transform (vectorizer ev) (X_train ev)) (y_train ev))
       (rf_fit L g (Some 42) (transform (vectorizer ev) (X_train ev)) (y_train ev))
       (svm_fit L g (Some 42) (transform (vectorizer ev) (X_train ev)) (y_train ev)) = Some ev \<and>
     2 \<le> length (remdups (y_train ev))"
proof -
  from assms obtain cleaned names processed table X_col X y Xtr Xte ytr yte vocabulary classes where
    c: "clean raw = Some cleaned" and
    n: "get_col cleaned ''ShippingName'' = Some names" and
    p: "apply_preprocess L names = Some processed" and
    t: "set_col ''processed_name'' processed cleaned = Some table" and
    xc: "get_col table ''processed_name'' = Some X_col" and
    x: "those (map str_of X_col) = Some X" and
    y: "get_col table ''Ethnicity'' = Some y" and
    sp: "train_test_split L g (Some 42) X y = Some (Xtr, Xte, ytr, yte)" and
    v: "fit_vocabulary Xtr = Some vocabulary" and
    k: "validate_targets ytr = Some classes" and
    e: "evaluate L table Xtr Xte ytr yte vocabulary
          (nb_fit L (transform vocabulary Xtr) ytr)
          (rf_fit L g (Some 42) (transform vocabulary Xtr) ytr)
          (svm_fit L g (Some 42) (transform vocabulary Xtr) ytr) = Some ev"
    by (auto simp: train_and_evaluate_def bind_eq_Some_conv split: prod.splits)
  from p obtain ss where ss: "those (map str_of names) = Some ss"
    and pr: "processed = map (\<lambda>s. CStr (preprocess_text L s)) ss"
    by (auto simp: apply_preprocess_def bind_eq_Some_conv)
  have names: "names = map CStr ss" using those_str_of [OF ss] .
  have xcol: "X_col = processed" using get_set_col_same [OF t] xc by simp
  have "map CStr X = map CStr (map (preprocess_text L) ss)"
    using those_str_of [OF x] by (simp add: xcol pr comp_def)
  moreover have "inj CStr" by (simp add: inj_def)
  ultimately have X: "X = map (preprocess_text L) ss"
    by (simp only: inj_map_eq_map)
  note ev = evaluate_spec [OF e]
  have two: "2 \<le> length (remdups ytr)"
    using k by (simp add: validate_targets_def split: if_splits)
  have other: "get_col table c = get_col cleaned c" if "c \<noteq> ''processed_name''" for c
    using that get_set_col_other [OF t, of c] by simp
  from ev have flds: "data ev = table" "X_train ev = Xtr" "X_test ev = Xte" "y_train ev = ytr"
    "y_test ev = yte" "vectorizer ev = vocabulary"
    by auto
  show ?thesis
    apply (rule exI [of _ cleaned], rule exI [of _ ss], rule exI [of _ y])
    apply (simp only: flds)
    using c n names xc xcol pr y other sp X v e two apply simp
    done
qed

lemma train_test_split_spec:
  assumes "train_test_split L g rs X y = Some (Xtr, Xte, ytr, yte)"
  shows "length y = length X \<and> 0 < length X - n_test_of (length X) \<and>
     Xtr = map ((!) X) (fst (split_indices L g rs (length X))) \<and>
     Xte = map ((!) X) (snd (split_indices L g rs (length X))) \<and>
     ytr = map ((!) y) (fst (split_indices L g rs (length X))) \<and>
     yte = map ((!) y) (snd (split_indices L g rs (length X))) \<and>
     set ytr \<subseteq> set y \<and> set yte \<subseteq> set y \<and> set Xtr \<subseteq> set X \<and> set Xte \<subseteq> set X"
proof -
  from assms have len: "length y = length X" "0 < length X - n_test_of (length X)"
    by (auto simp: train_test_split_def Let_def split: if_splits)
  from assms len have
    a: "take_rows X (fst (split_indices L g rs (length X))) = Some Xtr" and
    b: "take_rows X (snd (split_indices L g rs (length X))) = Some Xte" and
    c: "take_rows y (fst (split_indices L g rs (length X))) = Some ytr" and
    d: "take_rows y (snd (split_indices L g rs (length X))) = Some yte"
    by (auto simp: train_test_split_def Let_def bind_eq_Some_conv split: if_splits)
  show ?thesis
    using len take_rows_spec [OF a] take_rows_spec [OF b] take_rows_spec [OF c]
      take_rows_spec [OF d] take_rows_subset [OF a] take_rows_subset [OF b]
      take_rows_subset [OF c] take_rows_subset [OF d]
    by simp
qed

lemma length_transform_doc: "length (transform_doc vocabulary doc) = length vocabulary"
  by (simp add: transform_doc_def)

lemma transform_rows: "row \<in> set (transform vocabulary docs) \<Longrightarrow> length row = length vocabulary"
  by (auto simp: transform_def length_transform_doc)

lemma transform_doc_nth:
  "j < length vocabulary \<Longrightarrow>
     transform_doc vocabulary doc ! j = count_list (analyze doc) (vocabulary ! j)"
  by (simp add: transform_doc_def)

lemma count_list_filter_member:
  "t \<in> A \<Longrightarrow> count_list (filter (\<lambda>u. u \<in> A) ts) t = count_list ts t"
  by (induction ts) auto

lemma transform_doc_known_only:
  "transform_doc vocabulary doc
     = map (\<lambda>t. count_list (filter (\<lambda>u. u \<in> set vocabulary) (analyze doc)) t) vocabulary"
  by (simp add: transform_doc_def count_list_filter_member)

lemma fit_vocabulary_spec:
  "fit_vocabulary docs = Some vocabulary \<Longrightarrow>
     distinct vocabulary \<and> sorted vocabulary \<and> vocabulary \<noteq> [] \<and>
     set vocabulary = (\<Union>doc\<in>set docs. set (analyze doc))"
  by (auto simp: fit_vocabulary_def Let_def split: if_splits)

lemma demo_train: "train_and_evaluate demo_library 0 demo_data = Some demo_evaluation"
  by code_simp

lemma demo_stamp: "strftime demo_now = ''05102023_140309PM''"
  by (simp add: strftime_def demo_now_def pad2_def)

lemma demo_predict:
  "predict_new demo_library demo_evaluation demo_new_data \<bind>
     (\<lambda>s0. substitute_cases exceptional_cases s0 \<bind> add_predictions) = Some demo_final"
  by code_simp

lemma demo_run: "run demo_library 0 demo_now demo_data demo_new_data = Some demo_outcome"
  using demo_predict
  by (simp add: run_def demo_train export_def demo_stamp demo_outcome_def bind_eq_Some_conv
      demo_final_def)

lemma masked_train: "train_and_evaluate exact_library 0 masked_data = Some masked_evaluation"
  by code_simp

lemma masked_predict:
  "predict_new exact_library masked_evaluation masked_new_data \<bind>
     (\<lambda>s0. substitute_cases exceptional_cases s0 \<bind> add_predictions) = Some masked_final"
  by code_simp

lemma masked_run: "run exact_library 0 demo_now masked_data masked_new_data = Some masked_outcome"
  using masked_predict
  by (simp add: run_def masked_train export_def demo_stamp masked_outcome_def bind_eq_Some_conv
      masked_final_def)




section \<open>The string form of a value\<close>















section \<open>The cleaning cell\<close>



section \<open>The special-case substitution\<close>

lemma demo_processed:
  "map (\<lambda>v. preprocess_text demo_library (py_str v))
     [CStr ''Mr Ali'', CNaN, CStr ''***'', CStr ''Raj'']
   = [''mr ali'', ''nan'', '''', ''raj'']"
  by code_simp

lemma demo_rf_column:
  "get_col (new_data (final demo_outcome)) ''Predicted_Ethnicity_RF''
     = Some [CStr ''Malay'', CStr ''Others'', CStr ''Others'', CStr ''Indian'']"
  by (simp add: demo_outcome_def demo_final_def demo_table_def get_col_def)









text \<open>
  Claim C9. The substitution changes nothing but the entries of the three arrays of new
  predictions at the rows whose processed name is \<open>nan\<close> or empty: at every other row
  the emitted prediction is the estimator's own, and the kernel's evaluation variables
  (the test predictions and the metrics computed from them) are those the evaluation
  cells produced.
\<close>

theorem substitution_changes_only_exceptional_rows:
  assumes "run L g now raw new0 = Some out"
  shows "\<exists>names.
     train_and_evaluate L g raw = Some (trained (final out)) \<and>
     get_col new0 ''shipping_firstname'' = Some names \<and>
     get_col (new_data (final out)) ''processed_name''
       = Some (map (\<lambda>v. CStr (preprocess_text L (py_str v))) names) \<and>
     get_col (new_data (final out)) ''Predicted_Ethnicity_NB''
       = Some (new_predictions_nb (final out)) \<and>
     get_col (new_data (final out)) ''Predicted_Ethnicity_RF''
       = Some (new_predictions_rf (final out)) \<and>
     get_col (new_data (final out)) ''Predicted_Ethnicity_SVM''
       = Some (new_predictions_svm (final out)) \<and>
     (\<forall>i<length names.
        preprocess_text L (py_str (names ! i)) \<noteq> ''nan'' \<and> preprocess_text L (py_str (names ! i)) \<noteq> ''''
        \<longrightarrow> new_predictions_nb (final out) ! i
              = nb_predict L (classifier (trained (final out))) (new_data_vectorized (final out)) ! i \<and>
            new_predictions_rf (final out) ! i
              = rf_predict L (rf_classifier (trained (final out))) (new_data_vectorized (final out)) ! i \<and>
            new_predictions_svm (final out) ! i
              = svm_predict L (svm_classifier (trained (final out))) (new_data_vectorized (final out)) ! i) \<and>
     new_data_vectorized (final out)
       = transform (vectorizer (trained (final out)))
           (map (\<lambda>v. preprocess_text L (py_str v)) names) \<and>
     predictions (trained (final out))
       = nb_predict L (classifier (trained (final out))) (X_test_vectorized (trained (final out))) \<and>
     rf_predictions (trained (final out))
       = rf_predict L (rf_classifier (trained (final out))) (X_test_vectorized (trained (final out))) \<and>
     svm_predictions (trained (final out))
       = svm_predict L (svm_classifier (trained (final out))) (X_test_vectorized (trained (final out))) \<and>
     accuracy_score (y_test (trained (final out))) (predictions (trained (final out)))
       = Some (accuracy (trained (final out))) \<and>
     accuracy_score (y_test (trained (final out))) (rf_predictions (trained (final out)))
       = Some (rf_accuracy (trained (final out))) \<and>
     accuracy_score (y_test (trained (final out))) (svm_predictions (trained (final out)))
       = Some (svm_accuracy (trained (final out)))"
proof -
  from run_names [OF assms] obtain names where
    n: "get_col new0 ''shipping_firstname'' = Some names"
    by blast
  note o = run_output [OF assms n]
  let ?ev = "trained (final out)"
  from train_and_evaluate_spec [OF o(1)] have
    e: "evaluate L (data ?ev) (X_train ?ev) (X_test ?ev) (y_train ?ev) (y_test ?ev) (vectorizer ?ev)
       (nb_fit L (transform (vectorizer ?ev) (X_train ?ev)) (y_train ?ev))
       (rf_fit L g (Some 42) (transform (vectorizer ?ev) (X_train ?ev)) (y_train ?ev))
       (svm_fit L g (Some 42) (transform (vectorizer ?ev) (X_train ?ev)) (y_train ?ev)) = Some ?ev"
    by blast
  from evaluate_spec [OF e] have m:
    "predictions ?ev = nb_predict L (classifier ?ev) (X_test_vectorized ?ev)"
    "rf_predictions ?ev = rf_predict L (rf_classifier ?ev) (X_test_vectorized ?ev)"
    "svm_predictions ?ev = svm_predict L (svm_classifier ?ev) (X_test_vectorized ?ev)"
    "accuracy_score (y_test ?ev) (predictions ?ev) = Some (accuracy ?ev)"
    "accuracy_score (y_test ?ev) (rf_predictions ?ev) = Some (rf_accuracy ?ev)"
    "accuracy_score (y_test ?ev) (svm_predictions ?ev) = Some (svm_accuracy ?ev)"
    by auto
  have keep: "\<forall>i<length names.
        preprocess_text L (py_str (names ! i)) \<noteq> ''nan'' \<and> preprocess_text L (py_str (names ! i)) \<noteq> ''''
        \<longrightarrow> new_predictions_nb (final out) ! i
              = nb_predict L (classifier ?ev) (new_data_vectorized (final out)) ! i \<and>
            new_predictions_rf (final out) ! i
              = rf_predict L (rf_classifier ?ev) (new_data_vectorized (final out)) ! i \<and>
            new_predictions_svm (final out) ! i
              = svm_predict L (svm_classifier ?ev) (new_data_vectorized (final out)) ! i"
    using o(17) by auto
  show ?thesis
    apply (rule exI [of _ names])
    apply (intro conjI)
    apply (rule o(1) n o(5) o(6) o(7) o(8) keep o(10) m)+
    done
qed

theorem substitution_changes_only_exceptional_rows_witness:
  "run demo_library 0 demo_now demo_data demo_new_data = Some demo_outcome
   \<and> map (\<lambda>v. preprocess_text demo_library (py_str v))
         [CStr ''Mr Ali'', CNaN, CStr ''***'', CStr ''Raj'']
       = [''mr ali'', ''nan'', '''', ''raj'']
   \<and> get_col (new_data (final demo_outcome)) ''Predicted_Ethnicity_RF''
       = Some [CStr ''Malay'', CStr ''Others'', CStr ''Others'', CStr ''Indian'']
   \<and> (\<exists>names.
     train_and_evaluate demo_library 0 demo_data = Some (trained (final demo_outcome)) \<and>
     get_col demo_new_data ''shipping_firstname'' = Some names \<and>
     get_col (new_data (final demo_outcome)) ''processed_name''
       = Some (map (\<lambda>v. CStr (preprocess_text demo_library (py_str v))) names) \<and>
     get_col (new_data (final demo_outcome)) ''Predicted_Ethnicity_NB''
       = Some (new_predictions_nb (final demo_outcome)) \<and>
     get_col (new_data (final demo_outcome)) ''Predicted_Ethnicity_RF''
       = Some (new_predictions_rf (final demo_outcome)) \<and>
     get_col (new_data (final demo_outcome)) ''Predicted_Ethnicity_SVM''
       = Some (new_predictions_svm (final demo_outcome)) \<and>
     (\<forall>i<length names.
        preprocess_text demo_library (py_str (names ! i)) \<noteq> ''nan''
          \<and> preprocess_text demo_library (py_str (names ! i)) \<noteq> ''''
        \<longrightarrow> new_predictions_nb (final demo_outcome) ! i
              = nb_predict demo_library (classifier (trained (final demo_outcome)))
                  (new_data_vectorized (final demo_outcome)) ! i \<and>
            new_predictions_rf (final demo_outcome) ! i
              = rf_predict demo_library (rf_classifier (trained (final demo_outcome)))
                  (new_data_vectorized (final demo_outcome)) ! i \<and>
            new_predictions_svm (final demo_outcome) ! i
              = svm_predict demo_library (svm_classifier (trained (final demo_outcome)))
                  (new_data_vectorized (final demo_outcome)) ! i) \<and>
     new_data_vectorized (final demo_outcome)
       = transform (vectorizer (trained (final demo_outcome)))
           (map (\<lambda>v. preprocess_text demo_library (py_str v)) names) \<and>
     predictions (trained (final demo_outcome))
       = nb_predict demo_library (classifier (trained (final demo_outcome)))
           (X_test_vectorized (trained (final demo_outcome))) \<and>
     rf_predictions (trained (final demo_outcome))
       = rf_predict demo_library (rf_classifier (trained (final demo_outcome)))
           (X_test_vectorized (trained (final demo_outcome))) \<and>
     svm_predictions (trained (final demo_outcome))
       = svm_predict demo_library (svm_classifier (trained (final demo_outcome)))
           (X_test_vectorized (trained (final demo_outcome))) \<and>
     accuracy_score (y_test (trained (final demo_outcome)))
         (predictions (trained (final demo_outcome)))
       = Some (accuracy (trained (final demo_outcome))) \<and>
     accuracy_score (y_test (trained (final demo_outcome)))
         (rf_predictions (trained (final demo_outcome)))
       = Some (rf_accuracy (trained (final demo_outcome))) \<and>
     accuracy_score (y_test (trained (final demo_outcome)))
         (svm_predictions (trained (final demo_outcome)))
       = Some (svm_accuracy (trained (final demo_outcome))))"
  by (rule conjI [OF demo_run conjI [OF demo_processed conjI [OF demo_rf_column
        substitution_changes_only_exceptional_rows [OF demo_run]]]])

section \<open>The range of the emitted labels\<close>

lemma demo_nb_range:
  "\<forall>X y X'. set (nb_predict demo_library (nb_fit demo_library X y) X') \<subseteq> set y"
  by (auto simp: demo_library_def demo_nb_fit_def demo_const_predict_def split: list.splits)

lemma demo_svm_range:
  "\<forall>X y X'. set (svm_predict demo_library (svm_fit demo_library 0 (Some 42) X y) X') \<subseteq> set y"
proof (intro allI)
  fix X :: "nat list list" and y :: "cell list" and X' :: "nat list list"
  show "set (svm_predict demo_library (svm_fit demo_library 0 (Some 42) X y) X') \<subseteq> set y"
  proof (cases "rev y")
    case Nil
    then show ?thesis
      by (simp add: demo_library_def demo_svm_fit_def demo_const_predict_def)
  next
    case (Cons v rest)
    then have "v \<in> set (rev y)" by simp
    then have "v \<in> set y" by simp
    with Cons show ?thesis
      by (auto simp: demo_library_def demo_svm_fit_def demo_const_predict_def)
  qed
qed

lemma demo_rf_predict_range: "set (demo_rf_predict m X') \<subseteq> snd ` set m"
proof (cases m)
  case Nil
  then show ?thesis by (simp add: demo_rf_predict_def)
next
  case (Cons p rest)
  obtain x0 v0 where p: "p = (x0, v0)" by (cases p)
  have "(case filter (\<lambda>(x', v). shares_token x x') m of [] \<Rightarrow> v0 | (x', v) # matches \<Rightarrow> v)
          \<in> snd ` set m" for x
  proof (cases "filter (\<lambda>(x', v). shares_token x x') m")
    case Nil
    then show ?thesis using Cons p by force
  next
    case hit: (Cons q qs)
    obtain x' v where q: "q = (x', v)" by (cases q)
    have "q \<in> set (filter (\<lambda>(x', v). shares_token x x') m)"
      using hit by simp
    then have "(x', v) \<in> set m" by (simp add: q)
    then have "v \<in> snd ` set m" by force
    then show ?thesis by (simp add: hit q)
  qed
  then show ?thesis using Cons p by (auto simp: demo_rf_predict_def)
qed

lemma demo_rf_range:
  "\<forall>X y X'. set (rf_predict demo_library (rf_fit demo_library 0 (Some 42) X y) X') \<subseteq> set y"
proof (intro allI)
  fix X :: "nat list list" and y :: "cell list" and X' :: "nat list list"
  have "snd ` set (zip X y) \<subseteq> set y"
    by (auto dest: set_zip_rightD)
  with demo_rf_predict_range [of "zip X y" X']
  show "set (rf_predict demo_library (rf_fit demo_library 0 (Some 42) X y) X') \<subseteq> set y"
    by (simp add: demo_library_def demo_rf_fit_def)
qed

lemma demo_labels:
  "get_col (data (trained (final demo_outcome))) ''Ethnicity''
     = Some [CStr ''Chinese'', CStr ''Malay'', CStr ''Indian'', CStr ''Others'', CStr ''Malay'']"
  by (simp add: demo_outcome_def demo_final_def demo_evaluation_def get_col_def)

lemma demo_labels_four:
  "set [CStr ''Chinese'', CStr ''Malay'', CStr ''Indian'', CStr ''Others'', CStr ''Malay'']
     \<subseteq> four_classes"
  by (simp add: four_classes_def)

lemma four_classes_fit_Others:
  assumes two: "2 \<le> length (remdups ys)" and four: "set ys \<subseteq> four_classes"
  shows "take (item_width ys) ''Others'' = ''Others''"
proof -
  from two_classes_distinct [OF two, of "CStr ''Malay''"] obtain v where
    v: "v \<in> set ys" "v \<noteq> CStr ''Malay''"
    by blast
  with four have "6 \<le> length (py_str v)"
    by (auto simp: four_classes_def)
  with item_width_ge [OF v(1)] have "6 \<le> item_width ys"
    by simp
  then show ?thesis by simp
qed

text \<open>
  Claim C4. When every label of the cleaned training table is one of Malay, Indian,
  Chinese and Others, and each estimator predicts only labels it was fitted on, every
  label in the three prediction columns of the written file is one of the four classes.
\<close>

theorem emitted_labels_in_four_classes:
  assumes run: "run L g now raw new0 = Some out"
    and labels: "get_col (data (trained (final out))) ''Ethnicity'' = Some labels"
    and four: "set labels \<subseteq> four_classes"
    and nb: "\<forall>X y X'. set (nb_predict L (nb_fit L X y) X') \<subseteq> set y"
    and rf: "\<forall>X y X'. set (rf_predict L (rf_fit L g (Some 42) X y) X') \<subseteq> set y"
    and svm: "\<forall>X y X'. set (svm_predict L (svm_fit L g (Some 42) X y) X') \<subseteq> set y"
  shows "\<exists>path table nb_col rf_col svm_col.
     written out = [(path, table)] \<and>
     get_col table ''Predicted_Ethnicity_NB'' = Some nb_col \<and>
     get_col table ''Predicted_Ethnicity_RF'' = Some rf_col \<and>
     get_col table ''Predicted_Ethnicity_SVM'' = Some svm_col \<and>
     set nb_col \<subseteq> four_classes \<and> set rf_col \<subseteq> four_classes \<and> set svm_col \<subseteq> four_classes"
proof -
  from run_names [OF run] obtain names where
    n: "get_col new0 ''shipping_firstname'' = Some names"
    by blast
  note o = run_output [OF run n]
  let ?ev = "trained (final out)"
  from train_and_evaluate_spec [OF o(1)] obtain ss y where
    y: "get_col (data ?ev) ''Ethnicity'' = Some y" and
    sp: "train_test_split L g (Some 42) (map (preprocess_text L) ss) y
           = Some (X_train ?ev, X_test ?ev, y_train ?ev, y_test ?ev)" and
    e: "evaluate L (data ?ev) (X_train ?ev) (X_test ?ev) (y_train ?ev) (y_test ?ev) (vectorizer ?ev)
       (nb_fit L (transform (vectorizer ?ev) (X_train ?ev)) (y_train ?ev))
       (rf_fit L g (Some 42) (transform (vectorizer ?ev) (X_train ?ev)) (y_train ?ev))
       (svm_fit L g (Some 42) (transform (vectorizer ?ev) (X_train ?ev)) (y_train ?ev)) = Some ?ev" and
    two: "2 \<le> length (remdups (y_train ?ev))"
    by blast
  have "y = labels" using y labels by simp
  with train_test_split_spec [OF sp] four have ytr: "set (y_train ?ev) \<subseteq> four_classes"
    by blast
  note whole = four_classes_fit_Others [OF two ytr]
  from evaluate_spec [OF e] have
    cl: "classifier ?ev = nb_fit L (transform (vectorizer ?ev) (X_train ?ev)) (y_train ?ev)"
    "rf_classifier ?ev = rf_fit L g (Some 42) (transform (vectorizer ?ev) (X_train ?ev)) (y_train ?ev)"
    "svm_classifier ?ev = svm_fit L g (Some 42) (transform (vectorizer ?ev) (X_train ?ev)) (y_train ?ev)"
    by auto
  have raw_nb: "set (nb_predict L (classifier ?ev) (new_data_vectorized (final out))) \<subseteq> four_classes"
    using nb [rule_format, of "transform (vectorizer ?ev) (X_train ?ev)" "y_train ?ev"
        "new_data_vectorized (final out)"] ytr cl(1) by simp
  have raw_rf: "set (rf_predict L (rf_classifier ?ev) (new_data_vectorized (final out))) \<subseteq> four_classes"
    using rf [rule_format, of "transform (vectorizer ?ev) (X_train ?ev)" "y_train ?ev"
        "new_data_vectorized (final out)"] ytr cl(2) by simp
  have raw_svm: "set (svm_predict L (svm_classifier ?ev) (new_data_vectorized (final out))) \<subseteq> four_classes"
    using svm [rule_format, of "transform (vectorizer ?ev) (X_train ?ev)" "y_train ?ev"
        "new_data_vectorized (final out)"] ytr cl(3) by simp
  have oth: "CStr ''Others'' \<in> four_classes" by (simp add: four_classes_def)
  have fin_nb: "set (new_predictions_nb (final out)) \<subseteq> four_classes"
  proof
    fix v assume "v \<in> set (new_predictions_nb (final out))"
    then obtain i where i: "i < length names" and v: "v = new_predictions_nb (final out) ! i"
      using o(11) by (auto simp: in_set_conv_nth)
    have "nb_predict L (classifier ?ev) (new_data_vectorized (final out)) ! i \<in> four_classes"
      using raw_nb i o(14) nth_mem by fastforce
    with o(17) i v oth whole show "v \<in> four_classes" by simp
  qed
  have fin_rf: "set (new_predictions_rf (final out)) \<subseteq> four_classes"
  proof
    fix v assume "v \<in> set (new_predictions_rf (final out))"
    then obtain i where i: "i < length names" and v: "v = new_predictions_rf (final out) ! i"
      using o(12) by (auto simp: in_set_conv_nth)
    have "rf_predict L (rf_classifier ?ev) (new_data_vectorized (final out)) ! i \<in> four_classes"
      using raw_rf i o(15) nth_mem by fastforce
    with o(17) i v oth show "v \<in> four_classes" by simp
  qed
  have fin_svm: "set (new_predictions_svm (final out)) \<subseteq> four_classes"
  proof
    fix v assume "v \<in> set (new_predictions_svm (final out))"
    then obtain i where i: "i < length names" and v: "v = new_predictions_svm (final out) ! i"
      using o(13) by (auto simp: in_set_conv_nth)
    have "svm_predict L (svm_classifier ?ev) (new_data_vectorized (final out)) ! i \<in> four_classes"
      using raw_svm i o(16) nth_mem by fastforce
    with o(17) i v oth show "v \<in> four_classes" by simp
  qed
  show ?thesis
    apply (rule exI [of _ "''Data/Predictions/ecomm_demo_2023Q3_predicted_ethnicities_''
                      @ strftime now @ ''.xlsx''"])
    apply (rule exI [of _ "new_data (final out)"])
    apply (rule exI [of _ "new_predictions_nb (final out)"])
    apply (rule exI [of _ "new_predictions_rf (final out)"])
    apply (rule exI [of _ "new_predictions_svm (final out)"])
    apply (intro conjI)
    apply (rule o(3) o(6) o(7) o(8) fin_nb fin_rf fin_svm)+
    done
qed

theorem emitted_labels_in_four_classes_witness:
  "run demo_library 0 demo_now demo_data demo_new_data = Some demo_outcome
   \<and> get_col (data (trained (final demo_outcome))) ''Ethnicity''
       = Some [CStr ''Chinese'', CStr ''Malay'', CStr ''Indian'', CStr ''Others'', CStr ''Malay'']
   \<and> set [CStr ''Chinese'', CStr ''Malay'', CStr ''Indian'', CStr ''Others'', CStr ''Malay'']
       \<subseteq> four_classes
   \<and> (\<forall>X y X'. set (nb_predict demo_library (nb_fit demo_library X y) X') \<subseteq> set y)
   \<and> (\<forall>X y X'. set (rf_predict demo_library (rf_fit demo_library 0 (Some 42) X y) X') \<subseteq> set y)
   \<and> (\<forall>X y X'. set (svm_predict demo_library (svm_fit demo_library 0 (Some 42) X y) X') \<subseteq> set y)
   \<and> (\<exists>path table nb_col rf_col svm_col.
        written demo_outcome = [(path, table)] \<and>
        get_col table ''Predicted_Ethnicity_NB'' = Some nb_col \<and>
        get_col table ''Predicted_Ethnicity_RF'' = Some rf_col \<and>
        get_col table ''Predicted_Ethnicity_SVM'' = Some svm_col \<and>
        set nb_col \<subseteq> four_classes \<and> set rf_col \<subseteq> four_classes \<and> set svm_col \<subseteq> four_classes)"
  using demo_run demo_labels demo_labels_four demo_nb_range demo_rf_range demo_svm_range
    emitted_labels_in_four_classes [OF demo_run demo_labels demo_labels_four demo_nb_range
      demo_rf_range demo_svm_range]
  by (intro conjI)

section \<open>The held-out split\<close>

lemma demo_shuffle:
  "\<forall>n. distinct (permutation demo_library 0 (Some 42) n)
       \<and> set (permutation demo_library 0 (Some 42) n) = {..<n}"
  by (simp add: demo_library_def demo_permutation_def atLeast0LessThan)

text \<open>
  Claim C5. When the shuffle drawn from the random state is a permutation of the row
  positions, the training rows and the held-out rows are disjoint sets of positions of
  the cleaned table that together cover it, the held-out part has a fifth of the rows
  (rounded up), the vocabulary and the three estimators are fitted on the training rows
  alone, and accuracy, classification report and confusion matrix of each estimator are
  computed from its predictions on the held-out rows and their labels.
\<close>

theorem trained_on_train_part_evaluated_on_test_part:
  assumes run: "run L g now raw new0 = Some out"
    and perm: "\<forall>n. distinct (permutation L g (Some 42) n) \<and> set (permutation L g (Some 42) n) = {..<n}"
  shows "\<exists>X y.
     get_col (data (trained (final out))) ''processed_name'' = Some (map CStr X) \<and>
     get_col (data (trained (final out))) ''Ethnicity'' = Some y \<and>
     length y = length X \<and>
     X_train (trained (final out)) = map ((!) X) (fst (split_indices L g (Some 42) (length X))) \<and>
     y_train (trained (final out)) = map ((!) y) (fst (split_indices L g (Some 42) (length X))) \<and>
     X_test (trained (final out)) = map ((!) X) (snd (split_indices L g (Some 42) (length X))) \<and>
     y_test (trained (final out)) = map ((!) y) (snd (split_indices L g (Some 42) (length X))) \<and>
     set (fst (split_indices L g (Some 42) (length X)))
       \<inter> set (snd (split_indices L g (Some 42) (length X))) = {} \<and>
     set (fst (split_indices L g (Some 42) (length X)))
       \<union> set (snd (split_indices L g (Some 42) (length X))) = {..<length X} \<and>
     distinct (fst (split_indices L g (Some 42) (length X))) \<and>
     distinct (snd (split_indices L g (Some 42) (length X))) \<and>
     length (snd (split_indices L g (Some 42) (length X))) = (length X + 4) div 5 \<and>
     length (fst (split_indices L g (Some 42) (length X))) = length X - (length X + 4) div 5 \<and>
     fit_vocabulary (X_train (trained (final out))) = Some (vectorizer (trained (final out))) \<and>
     classifier (trained (final out))
       = nb_fit L (transform (vectorizer (trained (final out))) (X_train (trained (final out))))
           (y_train (trained (final out))) \<and>
     rf_classifier (trained (final out))
       = rf_fit L g (Some 42)
           (transform (vectorizer (trained (final out))) (X_train (trained (final out))))
           (y_train (trained (final out))) \<and>
     svm_classifier (trained (final out))
       = svm_fit L g (Some 42)
           (transform (vectorizer (trained (final out))) (X_train (trained (final out))))
           (y_train (trained (final out))) \<and>
     predictions (trained (final out))
       = nb_predict L (classifier (trained (final out)))
           (transform (vectorizer (trained (final out))) (X_test (trained (final out)))) \<and>
     rf_predictions (trained (final out))
       = rf_predict L (rf_classifier (trained (final out)))
           (transform (vectorizer (trained (final out))) (X_test (trained (final out)))) \<and>
     svm_predictions (trained (final out))
       = svm_predict L (svm_classifier (trained (final out)))
           (transform (vectorizer (trained (final out))) (X_test (trained (final out)))) \<and>
     accuracy_score (y_test (trained (final out))) (predictions (trained (final out)))
       = Some (accuracy (trained (final out))) \<and>
     accuracy_score (y_test (trained (final out))) (rf_predictions (trained (final out)))
       = Some (rf_accuracy (trained (final out))) \<and>
     accuracy_score (y_test (trained (final out))) (svm_predictions (trained (final out)))
       = Some (svm_accuracy (trained (final out))) \<and>
     report_nb (trained (final out))
       = classification_report L (y_test (trained (final out))) (predictions (trained (final out))) \<and>
     report_rf (trained (final out))
       = classification_report L (y_test (trained (final out))) (rf_predictions (trained (final out))) \<and>
     report_svm (trained (final out))
       = classification_report L (y_test (trained (final out))) (svm_predictions (trained (final out))) \<and>
     confusion_matrix (y_test (trained (final out))) (predictions (trained (final out))) (unique y)
       = Some (cm_nb (trained (final out))) \<and>
     confusion_matrix (y_test (trained (final out))) (rf_predictions (trained (final out))) (unique y)
       = Some (cm_rf (trained (final out))) \<and>
     confusion_matrix (y_test (trained (final out))) (svm_predictions (trained (final out))) (unique y)
       = Some (cm_svm (trained (final out)))"
proof -
  let ?ev = "trained (final out)"
  from run_names [OF run] obtain names where
    n: "get_col new0 ''shipping_firstname'' = Some names"
    by blast
  note o = run_output [OF run n]
  from train_and_evaluate_spec [OF o(1)] obtain ss y where
    pn: "get_col (data ?ev) ''processed_name'' = Some (map (\<lambda>s. CStr (preprocess_text L s)) ss)" and
    y: "get_col (data ?ev) ''Ethnicity'' = Some y" and
    sp: "train_test_split L g (Some 42) (map (preprocess_text L) ss) y
           = Some (X_train ?ev, X_test ?ev, y_train ?ev, y_test ?ev)" and
    v: "fit_vocabulary (X_train ?ev) = Some (vectorizer ?ev)" and
    e: "evaluate L (data ?ev) (X_train ?ev) (X_test ?ev) (y_train ?ev) (y_test ?ev) (vectorizer ?ev)
       (nb_fit L (transform (vectorizer ?ev) (X_train ?ev)) (y_train ?ev))
       (rf_fit L g (Some 42) (transform (vectorizer ?ev) (X_train ?ev)) (y_train ?ev))
       (svm_fit L g (Some 42) (transform (vectorizer ?ev) (X_train ?ev)) (y_train ?ev)) = Some ?ev"
    by blast
  let ?X = "map (preprocess_text L) ss"
  have pn': "get_col (data ?ev) ''processed_name'' = Some (map CStr ?X)"
    using pn by (simp add: comp_def)
  note t = train_test_split_spec [OF sp]
  have t1: "length y = length ?X" using t by blast
  have t2: "X_train ?ev = map ((!) ?X) (fst (split_indices L g (Some 42) (length ?X)))"
    using t by blast
  have t3: "y_train ?ev = map ((!) y) (fst (split_indices L g (Some 42) (length ?X)))"
    using t by blast
  have t4: "X_test ?ev = map ((!) ?X) (snd (split_indices L g (Some 42) (length ?X)))"
    using t by blast
  have t5: "y_test ?ev = map ((!) y) (snd (split_indices L g (Some 42) (length ?X)))"
    using t by blast
  have d: "distinct (permutation L g (Some 42) (length ?X))"
    and s: "set (permutation L g (Some 42) (length ?X)) = {..<length ?X}"
    using perm by blast+
  note part = split_indices_partition [OF d s]
  have p1: "set (fst (split_indices L g (Some 42) (length ?X)))
       \<inter> set (snd (split_indices L g (Some 42) (length ?X))) = {}"
    using part by blast
  have p2: "set (fst (split_indices L g (Some 42) (length ?X)))
       \<union> set (snd (split_indices L g (Some 42) (length ?X))) = {..<length ?X}"
    using part by blast
  have p3: "distinct (fst (split_indices L g (Some 42) (length ?X)))"
    using part by blast
  have p4: "distinct (snd (split_indices L g (Some 42) (length ?X)))"
    using part by blast
  have p5: "length (snd (split_indices L g (Some 42) (length ?X))) = (length ?X + 4) div 5"
    using part by (simp add: n_test_of_def)
  have p6: "length (fst (split_indices L g (Some 42) (length ?X)))
              = length ?X - (length ?X + 4) div 5"
    using part by (simp add: n_test_of_def)
  from evaluate_spec [OF e] y have m:
    "classifier ?ev = nb_fit L (transform (vectorizer ?ev) (X_train ?ev)) (y_train ?ev)"
    "rf_classifier ?ev = rf_fit L g (Some 42) (transform (vectorizer ?ev) (X_train ?ev)) (y_train ?ev)"
    "svm_classifier ?ev = svm_fit L g (Some 42) (transform (vectorizer ?ev) (X_train ?ev)) (y_train ?ev)"
    "predictions ?ev = nb_predict L (classifier ?ev) (transform (vectorizer ?ev) (X_test ?ev))"
    "rf_predictions ?ev = rf_predict L (rf_classifier ?ev) (transform (vectorizer ?ev) (X_test ?ev))"
    "svm_predictions ?ev = svm_predict L (svm_classifier ?ev) (transform (vectorizer ?ev) (X_test ?ev))"
    "accuracy_score (y_test ?ev) (predictions ?ev) = Some (accuracy ?ev)"
    "accuracy_score (y_test ?ev) (rf_predictions ?ev) = Some (rf_accuracy ?ev)"
    "accuracy_score (y_test ?ev) (svm_predictions ?ev) = Some (svm_accuracy ?ev)"
    "report_nb ?ev = classification_report L (y_test ?ev) (predictions ?ev)"
    "report_rf ?ev = classification_report L (y_test ?ev) (rf_predictions ?ev)"
    "report_svm ?ev = classification_report L (y_test ?ev) (svm_predictions ?ev)"
    "confusion_matrix (y_test ?ev) (predictions ?ev) (unique y) = Some (cm_nb ?ev)"
    "confusion_matrix (y_test ?ev) (rf_predictions ?ev) (unique y) = Some (cm_rf ?ev)"
    "confusion_matrix (y_test ?ev) (svm_predictions ?ev) (unique y) = Some (cm_svm ?ev)"
    by auto
  show ?thesis
    apply (rule exI [of _ ?X], rule exI [of _ y])
    apply (intro conjI)
    apply (rule pn' y t1 t2 t3 t4 t5 p1 p2 p3 p4 p5 p6 v m)+
    done
qed

theorem trained_on_train_part_evaluated_on_test_part_witness:
  "run demo_library 0 demo_now demo_data demo_new_data = Some demo_outcome
   \<and> (\<forall>n. distinct (permutation demo_library 0 (Some 42) n)
          \<and> set (permutation demo_library 0 (Some 42) n) = {..<n})
   \<and> X_train (trained (final demo_outcome)) = [''lee'', ''raj'', ''siti ali'', ''tan wei'']
   \<and> X_test (trained (final demo_outcome)) = [''nur ali'']
   \<and> (\<exists>X y.
     get_col (data (trained (final demo_outcome))) ''processed_name'' = Some (map CStr X) \<and>
     get_col (data (trained (final demo_outcome))) ''Ethnicity'' = Some y \<and>
     length y = length X \<and>
     X_train (trained (final demo_outcome))
       = map ((!) X) (fst (split_indices demo_library 0 (Some 42) (length X))) \<and>
     y_train (trained (final demo_outcome))
       = map ((!) y) (fst (split_indices demo_library 0 (Some 42) (length X))) \<and>
     X_test (trained (final demo_outcome))
       = map ((!) X) (snd (split_indices demo_library 0 (Some 42) (length X))) \<and>
     y_test (trained (final demo_outcome))
       = map ((!) y) (snd (split_indices demo_library 0 (Some 42) (length X))) \<and>
     set (fst (split_indices demo_library 0 (Some 42) (length X)))
       \<inter> set (snd (split_indices demo_library 0 (Some 42) (length X))) = {} \<and>
     set (fst (split_indices demo_library 0 (Some 42) (length X)))
       \<union> set (snd (split_indices demo_library 0 (Some 42) (length X))) = {..<length X} \<and>
     distinct (fst (split_indices demo_library 0 (Some 42) (length X))) \<and>
     distinct (snd (split_indices demo_library 0 (Some 42) (length X))) \<and>
     length (snd (split_indices demo_library 0 (Some 42) (length X))) = (length X + 4) div 5 \<and>
     length (fst (split_indices demo_library 0 (Some 42) (length X)))
       = length X - (length X + 4) div 5 \<and>
     fit_vocabulary (X_train (trained (final demo_outcome)))
       = Some (vectorizer (trained (final demo_outcome))) \<and>
     classifier (trained (final demo_outcome))
       = nb_fit demo_library
           (transform (vectorizer (trained (final demo_outcome)))
              (X_train (trained (final demo_outcome))))
           (y_train (trained (final demo_outcome))) \<and>
     rf_classifier (trained (final demo_outcome))
       = rf_fit demo_library 0 (Some 42)
           (transform (vectorizer (trained (final demo_outcome)))
              (X_train (trained (final demo_outcome))))
           (y_train (trained (final demo_outcome))) \<and>
     svm_classifier (trained (final demo_outcome))
       = svm_fit demo_library 0 (Some 42)
           (transform (vectorizer (trained (final demo_outcome)))
              (X_train (trained (final demo_outcome))))
           (y_train (trained (final demo_outcome))) \<and>
     predictions (trained (final demo_outcome))
       = nb_predict demo_library (classifier (trained (final demo_outcome)))
           (transform (vectorizer (trained (final demo_outcome)))
              (X_test (trained (final demo_outcome)))) \<and>
     rf_predictions (trained (final demo_outcome))
       = rf_predict demo_library (rf_classifier (trained (final demo_outcome)))
           (transform (vectorizer (trained (final demo_outcome)))
              (X_test (trained (final demo_outcome)))) \<and>
     svm_predictions (trained (final demo_outcome))
       = svm_predict demo_library (svm_classifier (trained (final demo_outcome)))
           (transform (vectorizer (trained (final demo_outcome)))
              (X_test (trained (final demo_outcome)))) \<and>
     accuracy_score (y_test (trained (final demo_outcome)))
         (predictions (trained (final demo_outcome)))
       = Some (accuracy (trained (final demo_outcome))) \<and>
     accuracy_score (y_test (trained (final demo_outcome)))
         (rf_predictions (trained (final demo_outcome)))
       = Some (rf_accuracy (trained (final demo_outcome))) \<and>
     accuracy_score (y_test (trained (final demo_outcome)))
         (svm_predictions (trained (final demo_outcome)))
       = Some (svm_accuracy (trained (final demo_outcome))) \<and>
     report_nb (trained (final demo_outcome))
       = classification_report demo_library (y_test (trained (final demo_outcome)))
           (predictions (trained (final demo_outcome))) \<and>
     report_rf (trained (final demo_outcome))
       = classification_report demo_library (y_test (trained (final demo_outcome)))
           (rf_predictions (trained (final demo_outcome))) \<and>
     report_svm (trained (final demo_outcome))
       = classification_report demo_library (y_test (trained (final demo_outcome)))
           (svm_predictions (trained (final demo_outcome))) \<and>
     confusion_matrix (y_test (trained (final demo_outcome)))
         (predictions (trained (final demo_outcome))) (unique y)
       = Some (cm_nb (trained (final demo_outcome))) \<and>
     confusion_matrix (y_test (trained (final demo_outcome)))
         (rf_predictions (trained (final demo_outcome))) (unique y)
       = Some (cm_rf (trained (final demo_outcome))) \<and>
     confusion_matrix (y_test (trained (final demo_outcome)))
         (svm_predictions (trained (final demo_outcome))) (unique y)
       = Some (cm_svm (trained (final demo_outcome))))"
proof -
  have parts: "X_train (trained (final demo_outcome)) = [''lee'', ''raj'', ''siti ali'', ''tan wei'']"
    "X_test (trained (final demo_outcome)) = [''nur ali'']"
    by (simp_all add: demo_outcome_def demo_final_def demo_evaluation_def)
  note t = trained_on_train_part_evaluated_on_test_part [OF demo_run demo_shuffle]
  show ?thesis
    by (rule conjI [OF demo_run conjI [OF demo_shuffle conjI [OF parts(1) conjI [OF parts(2) t]]]])
qed

section \<open>Vectorization\<close>

text \<open>
  Claim C8. The vocabulary is fitted on the training names only, and training, test and
  new names are all turned into vectors by it: every vector has the length of the
  vocabulary, its entry at a position is the number of occurrences of the vocabulary's
  token of that position among the name's tokens, and tokens outside the vocabulary
  change nothing.
\<close>

theorem vectors_count_training_vocabulary:
  assumes run: "run L g now raw new0 = Some out"
  shows "\<exists>names.
     get_col new0 ''shipping_firstname'' = Some names \<and>
     fit_vocabulary (X_train (trained (final out))) = Some (vectorizer (trained (final out))) \<and>
     X_train_vectorized (trained (final out))
       = map (transform_doc (vectorizer (trained (final out)))) (X_train (trained (final out))) \<and>
     X_test_vectorized (trained (final out))
       = map (transform_doc (vectorizer (trained (final out)))) (X_test (trained (final out))) \<and>
     new_data_vectorized (final out)
       = map (transform_doc (vectorizer (trained (final out))))
           (map (\<lambda>v. preprocess_text L (py_str v)) names) \<and>
     (\<forall>doc. length (transform_doc (vectorizer (trained (final out))) doc)
               = length (vectorizer (trained (final out))) \<and>
        (\<forall>j<length (vectorizer (trained (final out))).
           transform_doc (vectorizer (trained (final out))) doc ! j
             = count_list (analyze doc) (vectorizer (trained (final out)) ! j)) \<and>
        transform_doc (vectorizer (trained (final out))) doc
          = map (\<lambda>t. count_list
                   (filter (\<lambda>u. u \<in> set (vectorizer (trained (final out)))) (analyze doc)) t)
              (vectorizer (trained (final out))))"
proof -
  let ?ev = "trained (final out)"
  from run_names [OF run] obtain names where
    n: "get_col new0 ''shipping_firstname'' = Some names"
    by blast
  note o = run_output [OF run n]
  from train_and_evaluate_spec [OF o(1)] have
    v: "fit_vocabulary (X_train ?ev) = Some (vectorizer ?ev)" and
    e: "evaluate L (data ?ev) (X_train ?ev) (X_test ?ev) (y_train ?ev) (y_test ?ev) (vectorizer ?ev)
       (nb_fit L (transform (vectorizer ?ev) (X_train ?ev)) (y_train ?ev))
       (rf_fit L g (Some 42) (transform (vectorizer ?ev) (X_train ?ev)) (y_train ?ev))
       (svm_fit L g (Some 42) (transform (vectorizer ?ev) (X_train ?ev)) (y_train ?ev)) = Some ?ev"
    by blast+
  from evaluate_spec [OF e] have
    tr: "X_train_vectorized ?ev = map (transform_doc (vectorizer ?ev)) (X_train ?ev)" and
    te: "X_test_vectorized ?ev = map (transform_doc (vectorizer ?ev)) (X_test ?ev)"
    by (auto simp: transform_def)
  have nw: "new_data_vectorized (final out)
       = map (transform_doc (vectorizer ?ev)) (map (\<lambda>v. preprocess_text L (py_str v)) names)"
    using o(10) by (simp only: transform_def)
  have each: "\<forall>doc. length (transform_doc (vectorizer ?ev) doc) = length (vectorizer ?ev) \<and>
        (\<forall>j<length (vectorizer ?ev).
           transform_doc (vectorizer ?ev) doc ! j = count_list (analyze doc) (vectorizer ?ev ! j)) \<and>
        transform_doc (vectorizer ?ev) doc
          = map (\<lambda>t. count_list (filter (\<lambda>u. u \<in> set (vectorizer ?ev)) (analyze doc)) t)
              (vectorizer ?ev)"
    using length_transform_doc transform_doc_nth transform_doc_known_only by blast
  show ?thesis
    apply (rule exI [of _ names])
    apply (intro conjI)
    apply (rule n v tr te nw each)+
    done
qed

theorem vectors_count_training_vocabulary_witness:
  "run demo_library 0 demo_now demo_data demo_new_data = Some demo_outcome
   \<and> vectorizer (trained (final demo_outcome)) = [''ali'', ''lee'', ''raj'', ''siti'', ''tan'', ''wei'']
   \<and> new_data_vectorized (final demo_outcome)
       = [[1, 0, 0, 0, 0, 0], [0, 0, 0, 0, 0, 0], [0, 0, 0, 0, 0, 0], [0, 0, 1, 0, 0, 0]]
   \<and> (\<exists>names.
     get_col demo_new_data ''shipping_firstname'' = Some names \<and>
     fit_vocabulary (X_train (trained (final demo_outcome)))
       = Some (vectorizer (trained (final demo_outcome))) \<and>
     X_train_vectorized (trained (final demo_outcome))
       = map (transform_doc (vectorizer (trained (final demo_outcome))))
           (X_train (trained (final demo_outcome))) \<and>
     X_test_vectorized (trained (final demo_outcome))
       = map (transform_doc (vectorizer (trained (final demo_outcome))))
           (X_test (trained (final demo_outcome))) \<and>
     new_data_vectorized (final demo_outcome)
       = map (transform_doc (vectorizer (trained (final demo_outcome))))
           (map (\<lambda>v. preprocess_text demo_library (py_str v)) names) \<and>
     (\<forall>doc. length (transform_doc (vectorizer (trained (final demo_outcome))) doc)
               = length (vectorizer (trained (final demo_outcome))) \<and>
        (\<forall>j<length (vectorizer (trained (final demo_outcome))).
           transform_doc (vectorizer (trained (final demo_outcome))) doc ! j
             = count_list (analyze doc) (vectorizer (trained (final demo_outcome)) ! j)) \<and>
        transform_doc (vectorizer (trained (final demo_outcome))) doc
          = map (\<lambda>t. count_list
                   (filter (\<lambda>u. u \<in> set (vectorizer (trained (final demo_outcome)))) (analyze doc)) t)
              (vectorizer (trained (final demo_outcome)))))"
proof -
  have v: "vectorizer (trained (final demo_outcome))
             = [''ali'', ''lee'', ''raj'', ''siti'', ''tan'', ''wei'']"
    by (simp add: demo_outcome_def demo_final_def demo_evaluation_def)
  have n: "new_data_vectorized (final demo_outcome)
       = [[1, 0, 0, 0, 0, 0], [0, 0, 0, 0, 0, 0], [0, 0, 0, 0, 0, 0], [0, 0, 1, 0, 0, 0]]"
    by (simp add: demo_outcome_def demo_final_def)
  note t = vectors_count_training_vocabulary [OF demo_run]
  show ?thesis
    by (rule conjI [OF demo_run conjI [OF v conjI [OF n t]]])
qed

section \<open>Which models are applied to the new data\<close>

text \<open>
  Claim C3, as the specification states it, fails on the run over the table
  \<open>masked_data\<close>. The split with \<open>random_state=42\<close> holds out the second row (Ali, Malay)
  and trains on the rows 5, 3, 1 and 4. Naive Bayes scores the held-out name 1/4 for
  Chinese, 1/6 for Malay and 1/12 for Indian, answers Chinese and has accuracy 0. The
  held-out vector is the vector of the one Malay training row, where the SVM answers
  Malay and has accuracy 1. Naive Bayes is not among the best models on the held-out
  data, and its predictions are written all the same.
\<close>

theorem best_models_counterexample:
  "run exact_library 0 demo_now masked_data masked_new_data = Some masked_outcome \<and>
   y_test (trained (final masked_outcome)) = [CStr ''Malay''] \<and>
   predictions (trained (final masked_outcome)) = [CStr ''Chinese''] \<and>
   svm_predictions (trained (final masked_outcome)) = [CStr ''Malay''] \<and>
   accuracy (trained (final masked_outcome)) = 0 \<and>
   svm_accuracy (trained (final masked_outcome)) = 1 \<and>
   emitted_models masked_outcome = [NaiveBayes, RandomForest, SupportVector] \<and>
   NaiveBayes \<notin> set (best_models (trained (final masked_outcome))) \<and>
   \<not> spec_emits_best_models masked_outcome"
proof -
  have e: "emitted_models masked_outcome = [NaiveBayes, RandomForest, SupportVector]"
    by (simp add: emitted_models_def all_models_def masked_outcome_def masked_table_def
        get_col_def)
  have b: "best_models (trained (final masked_outcome)) = [RandomForest, SupportVector]"
    by (simp add: best_models_def all_models_def masked_outcome_def masked_final_def
        masked_evaluation_def)
  from e b have n: "\<not> spec_emits_best_models masked_outcome"
    by (simp add: spec_emits_best_models_def)
  have v: "y_test (trained (final masked_outcome)) = [CStr ''Malay'']"
    "predictions (trained (final masked_outcome)) = [CStr ''Chinese'']"
    "svm_predictions (trained (final masked_outcome)) = [CStr ''Malay'']"
    "accuracy (trained (final masked_outcome)) = 0"
    "svm_accuracy (trained (final masked_outcome)) = 1"
    by (simp_all add: masked_outcome_def masked_final_def masked_evaluation_def)
  from masked_run v e b n show ?thesis by simp
qed

text \<open>
  Claim C3, amended. Every run that completes applies all three fitted models to the new
  data and writes all three prediction columns, whatever their accuracies: at every row
  that the special-case substitution leaves alone, each column holds that model's
  prediction on the new name's vector.
\<close>

theorem all_three_models_emitted:
  assumes run: "run L g now raw new0 = Some out"
  shows "emitted_models out = [NaiveBayes, RandomForest, SupportVector] \<and>
   (\<exists>path table names nb rf svm.
     written out = [(path, table)] \<and>
     get_col new0 ''shipping_firstname'' = Some names \<and>
     get_col table ''Predicted_Ethnicity_NB'' = Some nb \<and>
     get_col table ''Predicted_Ethnicity_RF'' = Some rf \<and>
     get_col table ''Predicted_Ethnicity_SVM'' = Some svm \<and>
     length nb = length names \<and> length rf = length names \<and> length svm = length names \<and>
     (\<forall>i<length names.
        preprocess_text L (py_str (names ! i)) \<notin> {''nan'', ''''} \<longrightarrow>
        nb ! i = nb_predict L (classifier (trained (final out)))
                   (new_data_vectorized (final out)) ! i \<and>
        rf ! i = rf_predict L (rf_classifier (trained (final out)))
                   (new_data_vectorized (final out)) ! i \<and>
        svm ! i = svm_predict L (svm_classifier (trained (final out)))
                    (new_data_vectorized (final out)) ! i))"
proof -
  from run_names [OF run] obtain names where
    n: "get_col new0 ''shipping_firstname'' = Some names"
    by blast
  note o = run_output [OF run n]
  have em: "emitted_models out = [NaiveBayes, RandomForest, SupportVector]"
    by (simp add: emitted_models_def all_models_def o(3) o(6) o(7) o(8))
  have rows: "\<forall>i<length names.
        preprocess_text L (py_str (names ! i)) \<notin> {''nan'', ''''} \<longrightarrow>
        new_predictions_nb (final out) ! i
          = nb_predict L (classifier (trained (final out)))
              (new_data_vectorized (final out)) ! i \<and>
        new_predictions_rf (final out) ! i
          = rf_predict L (rf_classifier (trained (final out)))
              (new_data_vectorized (final out)) ! i \<and>
        new_predictions_svm (final out) ! i
          = svm_predict L (svm_classifier (trained (final out)))
              (new_data_vectorized (final out)) ! i"
    using o(17) by simp
  have ex: "\<exists>path table names nb rf svm.
     written out = [(path, table)] \<and>
     get_col new0 ''shipping_firstname'' = Some names \<and>
     get_col table ''Predicted_Ethnicity_NB'' = Some nb \<and>
     get_col table ''Predicted_Ethnicity_RF'' = Some rf \<and>
     get_col table ''Predicted_Ethnicity_SVM'' = Some svm \<and>
     length nb = length names \<and> length rf = length names \<and> length svm = length names \<and>
     (\<forall>i<length names.
        preprocess_text L (py_str (names ! i)) \<notin> {''nan'', ''''} \<longrightarrow>
        nb ! i = nb_predict L (classifier (trained (final out)))
                   (new_data_vectorized (final out)) ! i \<and>
        rf ! i = rf_predict L (rf_classifier (trained (final out)))
                   (new_data_vectorized (final out)) ! i \<and>
        svm ! i = svm_predict L (svm_classifier (trained (final out)))
                    (new_data_vectorized (final out)) ! i)"
    apply (rule exI [of _ "''Data/Predictions/ecomm_demo_2023Q3_predicted_ethnicities_''
                      @ strftime now @ ''.xlsx''"])
    apply (rule exI [of _ "new_data (final out)"], rule exI [of _ names])
    apply (rule exI [of _ "new_predictions_nb (final out)"])
    apply (rule exI [of _ "new_predictions_rf (final out)"])
    apply (rule exI [of _ "new_predictions_svm (final out)"])
    apply (intro conjI)
    apply (rule o(3) n o(6) o(7) o(8) o(11) o(12) o(13) rows)+
    done
  from em ex show ?thesis by (rule conjI)
qed

theorem all_three_models_emitted_witness:
  "run demo_library 0 demo_now demo_data demo_new_data = Some demo_outcome
   \<and> (emitted_models demo_outcome = [NaiveBayes, RandomForest, SupportVector] \<and>
   (\<exists>path table names nb rf svm.
     written demo_outcome = [(path, table)] \<and>
     get_col demo_new_data ''shipping_firstname'' = Some names \<and>
     get_col table ''Predicted_Ethnicity_NB'' = Some nb \<and>
     get_col table ''Predicted_Ethnicity_RF'' = Some rf \<and>
     get_col table ''Predicted_Ethnicity_SVM'' = Some svm \<and>
     length nb = length names \<and> length rf = length names \<and> length svm = length names \<and>
     (\<forall>i<length names.
        preprocess_text demo_library (py_str (names ! i)) \<notin> {''nan'', ''''} \<longrightarrow>
        nb ! i = nb_predict demo_library (classifier (trained (final demo_outcome)))
                   (new_data_vectorized (final demo_outcome)) ! i \<and>
        rf ! i = rf_predict demo_library (rf_classifier (trained (final demo_outcome)))
                   (new_data_vectorized (final demo_outcome)) ! i \<and>
        svm ! i = svm_predict demo_library (svm_classifier (trained (final demo_outcome)))
                    (new_data_vectorized (final demo_outcome)) ! i)))"
  using demo_run all_three_models_emitted [OF demo_run] by (rule conjI)

section \<open>The predictions file\<close>

text \<open>
  Claim C6, as the specification states it, fails on the example run: the second row of
  the new data has no name, and the file holds the string \<open>nan\<close> in its place; the file
  also has a fourth added column, the processed name.
\<close>

theorem rows_unchanged_counterexample:
  "run demo_library 0 demo_now demo_data demo_new_data = Some demo_outcome \<and>
   written demo_outcome
     = [(''Data/Predictions/ecomm_demo_2023Q3_predicted_ethnicities_05102023_140309PM.xlsx'',
         demo_table)] \<and>
   get_col demo_new_data ''shipping_firstname''
     = Some [CStr ''Mr Ali'', CNaN, CStr ''***'', CStr ''Raj''] \<and>
   get_col demo_table ''shipping_firstname''
     = Some [CStr ''Mr Ali'', CStr ''nan'', CStr ''***'', CStr ''Raj''] \<and>
   map fst demo_table
     = [''order'', ''shipping_firstname'', ''processed_name'', ''Predicted_Ethnicity_NB'',
        ''Predicted_Ethnicity_RF'', ''Predicted_Ethnicity_SVM''] \<and>
   \<not> spec_rows_unchanged demo_new_data demo_table"
proof -
  have w: "written demo_outcome
     = [(''Data/Predictions/ecomm_demo_2023Q3_predicted_ethnicities_05102023_140309PM.xlsx'',
         demo_table)]"
    by (simp add: demo_outcome_def)
  have a: "get_col demo_new_data ''shipping_firstname''
     = Some [CStr ''Mr Ali'', CNaN, CStr ''***'', CStr ''Raj'']"
    by (simp add: demo_new_data_def get_col_def)
  have b: "get_col demo_table ''shipping_firstname''
     = Some [CStr ''Mr Ali'', CStr ''nan'', CStr ''***'', CStr ''Raj'']"
    by (simp add: demo_table_def get_col_def)
  have c: "map fst demo_table
     = [''order'', ''shipping_firstname'', ''processed_name'', ''Predicted_Ethnicity_NB'',
        ''Predicted_Ethnicity_RF'', ''Predicted_Ethnicity_SVM'']"
    by (simp add: demo_table_def)
  have d: "\<not> spec_rows_unchanged demo_new_data demo_table"
    by (simp add: spec_rows_unchanged_def demo_new_data_def demo_table_def get_col_def)
  from demo_run w a b c d show ?thesis by simp
qed

text \<open>
  Claim C6, amended. A run that completes writes exactly one file; its name embeds the
  day, month, year, hour, minute and second of the run; the table written has the three
  prediction columns, one entry for each row of the new data, the column of processed
  names, the name column converted to strings, and every other column of the new data
  as it was read.
\<close>

theorem written_file_contents:
  assumes run: "run L g now raw new0 = Some out"
  shows "\<exists>names.
     get_col new0 ''shipping_firstname'' = Some names \<and>
     written out = [(''Data/Predictions/ecomm_demo_2023Q3_predicted_ethnicities_''
                      @ strftime now @ ''.xlsx'', new_data (final out))] \<and>
     strftime now
       = pad2 (day now) @ pad2 (month now) @ digits (year now) @ ''_''
         @ pad2 (hour now) @ pad2 (minute now) @ pad2 (second now)
         @ (if hour now < 12 then ''AM'' else ''PM'') \<and>
     get_col (new_data (final out)) ''shipping_firstname'' = Some (astype_str names) \<and>
     get_col (new_data (final out)) ''processed_name''
       = Some (map (\<lambda>v. CStr (preprocess_text L (py_str v))) names) \<and>
     get_col (new_data (final out)) ''Predicted_Ethnicity_NB''
       = Some (new_predictions_nb (final out)) \<and>
     get_col (new_data (final out)) ''Predicted_Ethnicity_RF''
       = Some (new_predictions_rf (final out)) \<and>
     get_col (new_data (final out)) ''Predicted_Ethnicity_SVM''
       = Some (new_predictions_svm (final out)) \<and>
     length (new_predictions_nb (final out)) = length names \<and>
     length (new_predictions_rf (final out)) = length names \<and>
     length (new_predictions_svm (final out)) = length names \<and>
     (\<forall>c. c \<noteq> ''shipping_firstname'' \<and> c \<noteq> ''processed_name'' \<and>
          c \<noteq> ''Predicted_Ethnicity_NB'' \<and> c \<noteq> ''Predicted_Ethnicity_RF'' \<and>
          c \<noteq> ''Predicted_Ethnicity_SVM''
        \<longrightarrow> get_col (new_data (final out)) c = get_col new0 c)"
proof -
  from run_names [OF run] obtain names where
    n: "get_col new0 ''shipping_firstname'' = Some names"
    by blast
  note o = run_output [OF run n]
  have st: "strftime now
       = pad2 (day now) @ pad2 (month now) @ digits (year now) @ ''_''
         @ pad2 (hour now) @ pad2 (minute now) @ pad2 (second now)
         @ (if hour now < 12 then ''AM'' else ''PM'')"
    by (rule strftime_def)
  show ?thesis
    apply (rule exI [of _ names])
    apply (intro conjI)
    apply (rule n o(3) st o(4) o(5) o(6) o(7) o(8) o(9) o(11) o(12) o(13))+
    done
qed

theorem written_file_contents_witness:
  "run demo_library 0 demo_now demo_data demo_new_data = Some demo_outcome
   \<and> (\<exists>names.
     get_col demo_new_data ''shipping_firstname'' = Some names \<and>
     written demo_outcome
       = [(''Data/Predictions/ecomm_demo_2023Q3_predicted_ethnicities_''
             @ strftime demo_now @ ''.xlsx'', new_data (final demo_outcome))] \<and>
     strftime demo_now
       = pad2 (day demo_now) @ pad2 (month demo_now) @ digits (year demo_now) @ ''_''
         @ pad2 (hour demo_now) @ pad2 (minute demo_now) @ pad2 (second demo_now)
         @ (if hour demo_now < 12 then ''AM'' else ''PM'') \<and>
     get_col (new_data (final demo_outcome)) ''shipping_firstname'' = Some (astype_str names) \<and>
     get_col (new_data (final demo_outcome)) ''processed_name''
       = Some (map (\<lambda>v. CStr (preprocess_text demo_library (py_str v))) names) \<and>
     get_col (new_data (final demo_outcome)) ''Predicted_Ethnicity_NB''
       = Some (new_predictions_nb (final demo_outcome)) \<and>
     get_col (new_data (final demo_outcome)) ''Predicted_Ethnicity_RF''
       = Some (new_predictions_rf (final demo_outcome)) \<and>
     get_col (new_data (final demo_outcome)) ''Predicted_Ethnicity_SVM''
       = Some (new_predictions_svm (final demo_outcome)) \<and>
     length (new_predictions_nb (final demo_outcome)) = length names \<and>
     length (new_predictions_rf (final demo_outcome)) = length names \<and>
     length (new_predictions_svm (final demo_outcome)) = length names \<and>
     (\<forall>c. c \<noteq> ''shipping_firstname'' \<and> c \<noteq> ''processed_name'' \<and>
          c \<noteq> ''Predicted_Ethnicity_NB'' \<and> c \<noteq> ''Predicted_Ethnicity_RF'' \<and>
          c \<noteq> ''Predicted_Ethnicity_SVM''
        \<longrightarrow> get_col (new_data (final demo_outcome)) c = get_col demo_new_data c))"
  using demo_run written_file_contents [OF demo_run] by (rule conjI)

section \<open>Determinism\<close>

lemma run_alt:
  "run L g now raw new0 =
     map_option (export now)
       (train_and_evaluate L g raw \<bind> (\<lambda>ev. predict_new L ev new0 \<bind>
          (\<lambda>s0. substitute_cases exceptional_cases s0 \<bind> add_predictions)))"
  by (auto simp: run_def split: Option.bind_split)

lemma final_export: "final (export now s) = s"
  by (simp add: export_def)

lemma written_export:
  "written (export now s)
     = [(''Data/Predictions/ecomm_demo_2023Q3_predicted_ethnicities_'' @ strftime now @ ''.xlsx'',
         new_data s)]"
  by (simp add: export_def)

lemma demo_seeded_shuffle:
  "\<forall>g g' n. permutation demo_library g (Some 42) n = permutation demo_library g' (Some 42) n"
  by (simp add: demo_library_def demo_permutation_def)

lemma demo_seeded_rf:
  "\<forall>g g' X y. rf_fit demo_library g (Some 42) X y = rf_fit demo_library g' (Some 42) X y"
  by (simp add: demo_library_def demo_rf_fit_def)

lemma demo_seeded_svm:
  "\<forall>g g' X y. svm_fit demo_library g (Some 42) X y = svm_fit demo_library g' (Some 42) X y"
  by (simp add: demo_library_def demo_svm_fit_def)

text \<open>
  Claim C10. When the shuffle, the Random Forest and the SVM, called with the seed 42, do
  not read the global generator, two runs on the same two tables end in the same kernel
  (the same split, models, metrics and predictions) and write the same table, whatever
  the state of the global generator and the time of each run; the file name depends on
  the time of the run only.
\<close>

theorem run_deterministic:
  assumes perm: "\<forall>g g' n. permutation L g (Some 42) n = permutation L g' (Some 42) n"
    and rf: "\<forall>g g' X y. rf_fit L g (Some 42) X y = rf_fit L g' (Some 42) X y"
    and svm: "\<forall>g g' X y. svm_fit L g (Some 42) X y = svm_fit L g' (Some 42) X y"
  shows "map_option final (run L g now raw new0) = map_option final (run L g' now' raw new0) \<and>
     map_option (\<lambda>out. map snd (written out)) (run L g now raw new0)
       = map_option (\<lambda>out. map snd (written out)) (run L g' now' raw new0) \<and>
     map_option (\<lambda>out. map fst (written out)) (run L g now raw new0)
       = map_option
           (\<lambda>out. [''Data/Predictions/ecomm_demo_2023Q3_predicted_ethnicities_''
                     @ strftime now @ ''.xlsx''])
           (run L g now raw new0)"
proof -
  have p: "permutation L g (Some 42) = permutation L g' (Some 42)"
    using perm by (intro ext) blast
  have r: "rf_fit L g (Some 42) = rf_fit L g' (Some 42)"
    using rf by (intro ext) blast
  have s: "svm_fit L g (Some 42) = svm_fit L g' (Some 42)"
    using svm by (intro ext) blast
  have sp: "train_test_split L g (Some 42) X y = train_test_split L g' (Some 42) X y"
    for X :: "string list" and y :: "cell list"
    by (simp only: train_test_split_def split_indices_def p)
  have te: "train_and_evaluate L g raw = train_and_evaluate L g' raw"
    by (simp only: train_and_evaluate_def sp r s)
  have fin: "map_option final (map_option (export t) k) = k"
    for t and k :: "('a, 'b, 'c) session option"
    by (cases k) (simp_all add: final_export)
  have tabs: "map_option (\<lambda>out. map snd (written out)) (map_option (export t) k)
                = map_option (\<lambda>s. [new_data s]) k"
    for t and k :: "('a, 'b, 'c) session option"
    by (cases k) (simp_all add: written_export)
  have paths: "map_option (\<lambda>out. map fst (written out)) (map_option (export t) k)
      = map_option (\<lambda>out. [''Data/Predictions/ecomm_demo_2023Q3_predicted_ethnicities_''
                     @ strftime t @ ''.xlsx'']) (map_option (export t) k)"
    for t and k :: "('a, 'b, 'c) session option"
    by (cases k) (simp_all add: written_export)
  show ?thesis
    by (simp only: run_alt te fin tabs paths)
qed

theorem run_deterministic_witness:
  "(\<forall>g g' n. permutation demo_library g (Some 42) n = permutation demo_library g' (Some 42) n)
   \<and> (\<forall>g g' X y. rf_fit demo_library g (Some 42) X y = rf_fit demo_library g' (Some 42) X y)
   \<and> (\<forall>g g' X y. svm_fit demo_library g (Some 42) X y = svm_fit demo_library g' (Some 42) X y)
   \<and> (map_option final (run demo_library 0 demo_now demo_data demo_new_data)
        = map_option final (run demo_library 7 (demo_now\<lparr>hour := 9\<rparr>) demo_data demo_new_data) \<and>
      map_option (\<lambda>out. map snd (written out)) (run demo_library 0 demo_now demo_data demo_new_data)
        = map_option (\<lambda>out. map snd (written out))
            (run demo_library 7 (demo_now\<lparr>hour := 9\<rparr>) demo_data demo_new_data) \<and>
      map_option (\<lambda>out. map fst (written out)) (run demo_library 0 demo_now demo_data demo_new_data)
        = map_option
            (\<lambda>out. [''Data/Predictions/ecomm_demo_2023Q3_predicted_ethnicities_''
                      @ strftime demo_now @ ''.xlsx''])
            (run demo_library 0 demo_now demo_data demo_new_data))"
proof -
  note t = run_deterministic [OF demo_seeded_shuffle demo_seeded_rf demo_seeded_svm,
      where g = 0 and g' = 7 and now = demo_now and now' = "demo_now\<lparr>hour := 9\<rparr>"
        and raw = demo_data and ?new0.0 = demo_new_data]
  show ?thesis
    by (rule conjI [OF demo_seeded_shuffle conjI [OF demo_seeded_rf conjI [OF demo_seeded_svm t]]])
qed

end
